theory Spec2Isabelle
  imports Complex_Main "HOL-Library.AList"
begin

section \<open>Time\<close>

text \<open>
  A \<^verbatim>\<open>datetime\<close> is a naive UTC instant with microsecond resolution; it is modelled as the
  number of microseconds since a fixed origin, and a \<^verbatim>\<open>timedelta\<close> as a number of
  microseconds. Every \<^verbatim>\<open>datetime.utcnow()\<close> of one operation is the single clock reading
  \<open>now\<close> passed to it.
\<close>

type_synonym datetime = int
type_synonym timedelta = int

definition timedelta_minutes :: "int \<Rightarrow> timedelta" where
  \<comment> \<open>\<^verbatim>\<open>timedelta(minutes=m)\<close>\<close>
  "timedelta_minutes m = m * 60000000"

definition timedelta_hours :: "int \<Rightarrow> timedelta" where
  \<comment> \<open>\<^verbatim>\<open>timedelta(hours=h)\<close>\<close>
  "timedelta_hours h = h * 3600000000"

definition whole_minutes :: "timedelta \<Rightarrow> int" where
  \<comment> \<open>\<^verbatim>\<open>int(d.total_seconds() / 60)\<close>: \<^verbatim>\<open>int\<close> truncates toward zero, HOL's \<open>div\<close> rounds down\<close>
  "whole_minutes d = (if 0 \<le> d then d div 60000000 else - ((- d) div 60000000))"

definition truthy :: "int option \<Rightarrow> bool" where
  \<comment> \<open>Python truth value of a nullable integer column: \<^verbatim>\<open>None\<close> and \<^verbatim>\<open>0\<close> are false\<close>
  "truthy v = (case v of None \<Rightarrow> False | Some n \<Rightarrow> n \<noteq> 0)"

section \<open>Order model (app/models/order.py)\<close>

datatype OrderStatus =
  PENDING | CONFIRMED | PREPARING | READY | COMPLETED | CANCELLED | REFUNDED | FAILED

datatype OrderPriority = LOW | NORMAL | HIGH | VIP

fun status_value :: "OrderStatus \<Rightarrow> string" where
  "status_value PENDING = ''pending''"
| "status_value CONFIRMED = ''confirmed''"
| "status_value PREPARING = ''preparing''"
| "status_value READY = ''ready''"
| "status_value COMPLETED = ''completed''"
| "status_value CANCELLED = ''cancelled''"
| "status_value REFUNDED = ''refunded''"
| "status_value FAILED = ''failed''"

datatype meta_value = MetaTime datetime | MetaInt int | MetaStr string

text \<open>
  The columns of \<^verbatim>\<open>Order\<close> that the workflow reads or writes. \<open>order_id\<close>, \<open>created_at\<close> and
  \<open>is_deleted\<close> are the columns inherited from \<^verbatim>\<open>BaseModel\<close> (\<^verbatim>\<open>id\<close>, \<^verbatim>\<open>created_at\<close>,
  \<^verbatim>\<open>is_deleted\<close>), non-null for a stored order; the base class is declared in
  \<^verbatim>\<open>app/models/base.py\<close>. Nullable columns are options. \<^verbatim>\<open>refund_amount\<close> is a float
  column that the code only stores and tests against zero.
\<close>

record Order =
  order_id :: int
  created_at :: datetime
  is_deleted :: bool
  user_id :: int
  status :: OrderStatus
  payment_method :: string
  priority :: OrderPriority
  estimated_preparation_time :: "int option"
  estimated_delivery_time :: "datetime option"
  actual_preparation_start :: "datetime option"
  actual_preparation_end :: "datetime option"
  delivery_completed_at :: "datetime option"
  status_pending_at :: datetime
  status_confirmed_at :: "datetime option"
  status_preparing_at :: "datetime option"
  status_ready_at :: "datetime option"
  status_completed_at :: "datetime option"
  status_cancelled_at :: "datetime option"
  delivery_type :: string
  cancellation_reason :: "string option"
  cancelled_by_user_id :: "int option"
  refund_amount :: "real option"
  preparation_duration :: "int option"
  total_duration :: "int option"
  automation_flags :: "string \<rightharpoonup> bool"
  workflow_metadata :: "string \<rightharpoonup> meta_value"

definition is_active :: "Order \<Rightarrow> bool" where
  "is_active ord = (status ord \<in> set [PENDING, CONFIRMED, PREPARING, READY])"

definition is_completed_state :: "Order \<Rightarrow> bool" where
  "is_completed_state ord = (status ord \<in> set [COMPLETED, CANCELLED, FAILED, REFUNDED])"

definition can_be_cancelled :: "Order \<Rightarrow> bool" where
  "can_be_cancelled ord = (status ord \<in> set [PENDING, CONFIRMED, PREPARING])"

definition can_be_refunded :: "Order \<Rightarrow> bool" where
  "can_be_refunded ord = (status ord \<in> set [COMPLETED, CANCELLED])"

definition get_estimated_completion_time :: "Order \<Rightarrow> datetime option" where
  "get_estimated_completion_time ord =
     (case estimated_preparation_time ord of
        None \<Rightarrow> None
      | Some m \<Rightarrow>
          if m = 0 then None
          else
            let base_time = (case status_confirmed_at ord of
                               Some t \<Rightarrow> t
                             | None \<Rightarrow> created_at ord)
            in Some (base_time + timedelta_minutes m))"

definition calculate_preparation_duration :: "Order \<Rightarrow> int option" where
  "calculate_preparation_duration ord =
     (case (actual_preparation_start ord, actual_preparation_end ord) of
        (Some s, Some e) \<Rightarrow> Some (whole_minutes (e - s))
      | _ \<Rightarrow> None)"

definition is_overdue :: "datetime \<Rightarrow> Order \<Rightarrow> bool" where
  "is_overdue now ord =
     (case get_estimated_completion_time ord of
        None \<Rightarrow> False
      | Some estimated \<Rightarrow> now > estimated \<and> \<not> is_completed_state ord)"

definition set_workflow_metadata_value :: "string \<Rightarrow> meta_value \<Rightarrow> Order \<Rightarrow> Order" where
  "set_workflow_metadata_value key v ord =
     ord\<lparr>workflow_metadata := (workflow_metadata ord)(key \<mapsto> v)\<rparr>"

definition get_automation_flag :: "Order \<Rightarrow> string \<Rightarrow> bool \<Rightarrow> bool" where
  "get_automation_flag ord flag dflt =
     (case automation_flags ord flag of None \<Rightarrow> dflt | Some b \<Rightarrow> b)"

definition set_automation_flag :: "string \<Rightarrow> bool \<Rightarrow> Order \<Rightarrow> Order" where
  "set_automation_flag flag v ord =
     ord\<lparr>automation_flags := (automation_flags ord)(flag \<mapsto> v)\<rparr>"

section \<open>Transition validation (app/services/order_workflow.py)\<close>

datatype workflow_error =
  StatusTransitionError OrderStatus OrderStatus "OrderStatus set"
  \<comment> \<open>the statuses named in the message: from, to, and the valid targets of from\<close>

fun valid_transitions :: "OrderStatus \<Rightarrow> OrderStatus set" where
  "valid_transitions PENDING = {CONFIRMED, CANCELLED, FAILED}"
| "valid_transitions CONFIRMED = {PREPARING, CANCELLED}"
| "valid_transitions PREPARING = {READY, CANCELLED}"
| "valid_transitions READY = {COMPLETED, CANCELLED}"
| "valid_transitions COMPLETED = {REFUNDED}"
| "valid_transitions CANCELLED = {REFUNDED}"
| "valid_transitions FAILED = {PENDING, CANCELLED}"
| "valid_transitions REFUNDED = {}"

definition validate_transition :: "OrderStatus \<Rightarrow> OrderStatus \<Rightarrow> workflow_error + unit" where
  "validate_transition from_status to_status =
     (if from_status = to_status then Inr ()
      else
        let valid_targets = valid_transitions from_status
        in if to_status \<notin> valid_targets
           then Inl (StatusTransitionError from_status to_status valid_targets)
           else Inr ())"

text \<open>
  The transition table as the specification prints it, one row per source status, for
  comparison with \<open>valid_transitions\<close>.
\<close>

definition spec_transition_table :: "(OrderStatus \<times> OrderStatus list) list" where
  "spec_transition_table =
     [(PENDING, [CONFIRMED, CANCELLED, FAILED]),
      (CONFIRMED, [PREPARING, CANCELLED]),
      (PREPARING, [READY, CANCELLED]),
      (READY, [COMPLETED, CANCELLED]),
      (COMPLETED, [REFUNDED]),
      (CANCELLED, [REFUNDED]),
      (FAILED, [PENDING, CANCELLED]),
      (REFUNDED, [])]"

definition spec_allowed :: "OrderStatus \<Rightarrow> OrderStatus set" where
  "spec_allowed from_status =
     (case map_of spec_transition_table from_status of
        None \<Rightarrow> {}
      | Some row \<Rightarrow> set row)"

section \<open>Status history (app/models/order_status_history.py)\<close>

datatype StatusChangeReason =
  AUTOMATIC | MANUAL_ADMIN | PAYMENT_SUCCESS | PAYMENT_FAILED | CUSTOMER_REQUEST
  | KITCHEN_READY | DELIVERY_COMPLETED | TIMEOUT | ERROR | REFUND_PROCESSED
  | CANCELLED_BY_ADMIN | CANCELLED_BY_CUSTOMER

fun reason_value :: "StatusChangeReason \<Rightarrow> string" where
  "reason_value AUTOMATIC = ''automatic''"
| "reason_value MANUAL_ADMIN = ''manual_admin''"
| "reason_value PAYMENT_SUCCESS = ''payment_success''"
| "reason_value PAYMENT_FAILED = ''payment_failed''"
| "reason_value CUSTOMER_REQUEST = ''customer_request''"
| "reason_value KITCHEN_READY = ''kitchen_ready''"
| "reason_value DELIVERY_COMPLETED = ''delivery_completed''"
| "reason_value TIMEOUT = ''timeout''"
| "reason_value ERROR = ''error''"
| "reason_value REFUND_PROCESSED = ''refund_processed''"
| "reason_value CANCELLED_BY_ADMIN = ''cancelled_by_admin''"
| "reason_value CANCELLED_BY_CUSTOMER = ''cancelled_by_customer''"

text \<open>
  \<open>OrderStatusHistory_new\<close> is the object \<^verbatim>\<open>create_status_change\<close> builds; a stored row
  \<open>OrderStatusHistory\<close> has in addition the two columns the INSERT fills: the
  autoincrement \<^verbatim>\<open>id\<close> and \<^verbatim>\<open>changed_at\<close> (\<^verbatim>\<open>default=datetime.utcnow\<close>).
\<close>

record OrderStatusHistory_new =
  history_order_id :: int
  from_status :: "string option"
  to_status :: string
  reason :: string
  changed_by_user_id :: "int option"
  history_notes :: "string option"
  system_message :: "string option"
  workflow_data :: "string \<rightharpoonup> meta_value"
  duration_from_previous :: "int option"

record OrderStatusHistory = OrderStatusHistory_new +
  history_id :: int
  changed_at :: datetime

definition create_status_change ::
  "int \<Rightarrow> string option \<Rightarrow> string \<Rightarrow> StatusChangeReason \<Rightarrow> int option \<Rightarrow> string option
   \<Rightarrow> string option \<Rightarrow> (string \<rightharpoonup> meta_value) option \<Rightarrow> OrderStatusHistory_new" where
  "create_status_change oid from_s to_s rsn changed_by nts sys_msg wdata =
     \<lparr>history_order_id = oid,
      from_status = from_s,
      to_status = to_s,
      reason = reason_value rsn,
      changed_by_user_id = changed_by,
      history_notes = nts,
      system_message = sys_msg,
      workflow_data = (case wdata of None \<Rightarrow> Map.empty | Some d \<Rightarrow> d),
      duration_from_previous = None\<rparr>"

definition next_history_id :: "OrderStatusHistory list \<Rightarrow> int" where
  \<comment> \<open>the autoincrement primary key of the next row\<close>
  "next_history_id hist = foldr max (map history_id hist) 0 + 1"

definition insert_history ::
  "datetime \<Rightarrow> OrderStatusHistory list \<Rightarrow> OrderStatusHistory_new \<Rightarrow> OrderStatusHistory" where
  \<comment> \<open>\<^verbatim>\<open>db.add(history); db.commit(); db.refresh(history)\<close>\<close>
  "insert_history now hist h =
     OrderStatusHistory_new.extend h
       (OrderStatusHistory.fields (next_history_id hist) now)"

fun most_recent :: "OrderStatusHistory list \<Rightarrow> OrderStatusHistory option" where
  "most_recent [] = None"
| "most_recent (h # hs) =
     (case most_recent hs of
        None \<Rightarrow> Some h
      | Some h' \<Rightarrow> if changed_at h \<le> changed_at h' then Some h' else Some h)"

definition get_last_status_history ::
  "OrderStatusHistory list \<Rightarrow> int \<Rightarrow> OrderStatusHistory option" where
  \<comment> \<open>\<^verbatim>\<open>where(order_id == ...).order_by(changed_at.desc()).limit(1)\<close>; among rows with the
      same \<^verbatim>\<open>changed_at\<close> the database may return any, here the one inserted last\<close>
  "get_last_status_history hist oid =
     most_recent (filter (\<lambda>h. history_order_id h = oid) hist)"

section \<open>Workflow engine (app/services/order_workflow.py)\<close>

fun default_preparation_times :: "OrderPriority \<Rightarrow> int" where
  "default_preparation_times VIP = 15"
| "default_preparation_times HIGH = 25"
| "default_preparation_times NORMAL = 35"
| "default_preparation_times LOW = 45"

definition auto_calculate_timing_fields :: "datetime \<Rightarrow> Order \<Rightarrow> OrderStatus \<Rightarrow> Order" where
  "auto_calculate_timing_fields now ord st =
     (if st = CONFIRMED then
        let ord1 = (if \<not> truthy (estimated_preparation_time ord)
                    then ord\<lparr>estimated_preparation_time :=
                               Some (default_preparation_times (priority ord))\<rparr>
                    else ord)
        in (case estimated_preparation_time ord1 of
              None \<Rightarrow> ord1
            | Some m \<Rightarrow>
                if m \<noteq> 0
                then ord1\<lparr>estimated_delivery_time := Some (now + timedelta_minutes m)\<rparr>
                else ord1)
      else if st = PREPARING then
        (if actual_preparation_start ord = None
         then ord\<lparr>actual_preparation_start := Some now\<rparr>
         else ord)
      else if st = READY then
        let ord1 = (if actual_preparation_end ord = None
                    then ord\<lparr>actual_preparation_end := Some now\<rparr>
                    else ord)
        in (case actual_preparation_start ord1 of
              None \<Rightarrow> ord1
            | Some started \<Rightarrow>
                if \<not> truthy (preparation_duration ord1)
                then ord1\<lparr>preparation_duration := Some (whole_minutes (now - started))\<rparr>
                else ord1)
      else if st = COMPLETED then
        let ord1 = (if \<not> truthy (total_duration ord)
                    then ord\<lparr>total_duration := Some (whole_minutes (now - created_at ord))\<rparr>
                    else ord)
        in (if delivery_type ord1 = ''delivery''
            then ord1\<lparr>delivery_completed_at := Some now\<rparr>
            else ord1)
      else ord)"

definition update_status_timestamps :: "datetime \<Rightarrow> Order \<Rightarrow> OrderStatus \<Rightarrow> bool \<Rightarrow> Order" where
  "update_status_timestamps now ord st auto_calculate =
     (let ord1 = (case st of
                    PENDING \<Rightarrow> ord\<lparr>status_pending_at := now\<rparr>
                  | CONFIRMED \<Rightarrow> ord\<lparr>status_confirmed_at := Some now\<rparr>
                  | PREPARING \<Rightarrow> ord\<lparr>status_preparing_at := Some now\<rparr>
                  | READY \<Rightarrow> ord\<lparr>status_ready_at := Some now\<rparr>
                  | COMPLETED \<Rightarrow> ord\<lparr>status_completed_at := Some now\<rparr>
                  | CANCELLED \<Rightarrow> ord\<lparr>status_cancelled_at := Some now\<rparr>
                  | REFUNDED \<Rightarrow> ord
                  | FAILED \<Rightarrow> ord)
      in if auto_calculate then auto_calculate_timing_fields now ord1 st else ord1)"

definition schedule_automatic_transitions :: "datetime \<Rightarrow> Order \<Rightarrow> Order" where
  "schedule_automatic_transitions now ord =
     set_workflow_metadata_value ''last_auto_check'' (MetaTime now)
       (set_automation_flag ''auto_transition_scheduled'' True ord)"

definition update_workflow_metadata ::
  "datetime \<Rightarrow> Order \<Rightarrow> OrderStatus \<Rightarrow> OrderStatusHistory \<Rightarrow> Order" where
  "update_workflow_metadata now ord new_status h =
     set_workflow_metadata_value ''workflow_version'' (MetaStr ''1.0'')
       (set_workflow_metadata_value ''last_status_change_id'' (MetaInt (history_id h))
         (set_workflow_metadata_value (''status_'' @ status_value new_status @ ''_at'')
            (MetaTime now) ord))"

definition on_order_confirmed :: "Order \<Rightarrow> Order" where
  "on_order_confirmed ord =
     set_automation_flag ''auto_preparing_eligible'' True
       (set_automation_flag ''kitchen_notified'' False ord)"

definition on_order_preparing :: "Order \<Rightarrow> Order" where
  "on_order_preparing ord =
     set_automation_flag ''preparation_started'' True
       (set_automation_flag ''kitchen_notified'' True ord)"

definition on_order_ready :: "Order \<Rightarrow> Order" where
  "on_order_ready ord =
     (if delivery_type ord = ''pickup''
      then set_automation_flag ''auto_complete_eligible'' True ord
      else ord)"

definition on_order_completed :: "Order \<Rightarrow> Order" where
  "on_order_completed ord =
     set_automation_flag ''feedback_eligible'' True
       (set_automation_flag ''workflow_completed'' True ord)"

definition on_order_cancelled :: "Order \<Rightarrow> Order" where
  "on_order_cancelled ord =
     set_automation_flag ''refund_eligible'' True
       (set_automation_flag ''workflow_cancelled'' True ord)"

definition execute_post_transition_hooks ::
  "datetime \<Rightarrow> Order \<Rightarrow> OrderStatus \<Rightarrow> OrderStatusHistory \<Rightarrow> Order" where
  "execute_post_transition_hooks now ord new_status h =
     (let ord1 = schedule_automatic_transitions now ord;
          ord2 = update_workflow_metadata now ord1 new_status h
      in if new_status = CONFIRMED then on_order_confirmed ord2
         else if new_status = PREPARING then on_order_preparing ord2
         else if new_status = READY then on_order_ready ord2
         else if new_status = COMPLETED then on_order_completed ord2
         else if new_status = CANCELLED then on_order_cancelled ord2
         else ord2)"

text \<open>
  \<^verbatim>\<open>transition_status\<close> mutates the order object it is given and the history table of its
  session; the model returns both after the call, next to the outcome (the raised error,
  or the history row that the call returns with the order). The status notification sent
  between the commit and the hooks is wrapped in \<^verbatim>\<open>try/except\<close> and touches neither the
  order nor the history table; it is left out.
\<close>

definition transition_status ::
  "datetime \<Rightarrow> OrderStatusHistory list \<Rightarrow> Order \<Rightarrow> OrderStatus \<Rightarrow> StatusChangeReason
   \<Rightarrow> int option \<Rightarrow> string option \<Rightarrow> string option \<Rightarrow> (string \<rightharpoonup> meta_value) option
   \<Rightarrow> bool \<Rightarrow> bool
   \<Rightarrow> (Order \<times> OrderStatusHistory list) \<times> (workflow_error + OrderStatusHistory)" where
  "transition_status now hist ord new_status rsn changed_by nts sys_msg wdata
     validate auto_calculate_times =
     (let old_status = status ord
      in case (if validate then validate_transition old_status new_status else Inr ()) of
           Inl err \<Rightarrow> ((ord, hist), Inl err)
         | Inr _ \<Rightarrow>
             let dur = (if old_status \<noteq> new_status
                        then (case get_last_status_history hist (order_id ord) of
                                None \<Rightarrow> None
                              | Some last_history \<Rightarrow>
                                  Some (whole_minutes (now - changed_at last_history)))
                        else None);
                 ord1 = update_status_timestamps now (ord\<lparr>status := new_status\<rparr>)
                          new_status auto_calculate_times;
                 h0 = create_status_change (order_id ord) (Some (status_value old_status))
                        (status_value new_status) rsn changed_by nts sys_msg wdata;
                 h = insert_history now hist (h0\<lparr>duration_from_previous := dur\<rparr>);
                 ord2 = execute_post_transition_hooks now ord1 new_status h
             in ((ord2, hist @ [h]), Inr h))"

subsection \<open>Bulk transitions\<close>

text \<open>
  The session: the order objects by primary key, and the history table in insertion
  order.
\<close>

record db =
  orders :: "int \<rightharpoonup> Order"
  history :: "OrderStatusHistory list"

definition get_order :: "db \<Rightarrow> int \<Rightarrow> Order option" where
  \<comment> \<open>\<^verbatim>\<open>select(Order).where(Order.id == order_id, Order.is_deleted == False)\<close>\<close>
  "get_order d oid =
     (case orders d oid of
        None \<Rightarrow> None
      | Some ord \<Rightarrow> if is_deleted ord then None else Some ord)"

datatype bulk_error = OrderNotFound | Raised workflow_error

record success_entry =
  s_order_id :: int
  s_old_status :: "string option"
  s_new_status :: string
  s_history_id :: int

record bulk_results =
  successful :: "success_entry list"
  failed :: "(int \<times> bulk_error) list"
  total_processed :: int
  success_count :: int
  failure_count :: int

definition bulk_step ::
  "datetime \<Rightarrow> OrderStatus \<Rightarrow> StatusChangeReason \<Rightarrow> int option \<Rightarrow> string option
   \<Rightarrow> int \<Rightarrow> db \<times> bulk_results \<Rightarrow> db \<times> bulk_results" where
  \<comment> \<open>one iteration of the loop over \<^verbatim>\<open>order_ids\<close>\<close>
  "bulk_step now new_status rsn changed_by nts oid dr =
     (let d = fst dr;
          r = (snd dr)\<lparr>total_processed := total_processed (snd dr) + 1\<rparr>
      in case get_order d oid of
           None \<Rightarrow>
             (d, r\<lparr>failed := failed r @ [(oid, OrderNotFound)],
                   failure_count := failure_count r + 1\<rparr>)
         | Some ord \<Rightarrow>
             (case transition_status now (history d) ord new_status rsn changed_by nts
                     None None True True of
                ((ord', hist'), Inr h) \<Rightarrow>
                  (d\<lparr>orders := (orders d)(oid \<mapsto> ord'), history := hist'\<rparr>,
                   r\<lparr>successful := successful r @
                        [\<lparr>s_order_id = oid, s_old_status = from_status h,
                          s_new_status = to_status h, s_history_id = history_id h\<rparr>],
                      success_count := success_count r + 1\<rparr>)
              | ((ord', hist'), Inl err) \<Rightarrow>
                  (d\<lparr>orders := (orders d)(oid \<mapsto> ord'), history := hist'\<rparr>,
                   r\<lparr>failed := failed r @ [(oid, Raised err)],
                      failure_count := failure_count r + 1\<rparr>)))"

definition bulk_transition_orders ::
  "datetime \<Rightarrow> db \<Rightarrow> int list \<Rightarrow> OrderStatus \<Rightarrow> StatusChangeReason \<Rightarrow> int option
   \<Rightarrow> string option \<Rightarrow> db \<times> bulk_results" where
  "bulk_transition_orders now d order_ids new_status rsn changed_by nts =
     fold (bulk_step now new_status rsn changed_by nts) order_ids
       (d, \<lparr>successful = [], failed = [], total_processed = 0,
            success_count = 0, failure_count = 0\<rparr>)"

section \<open>Order service (app/services/order.py)\<close>

definition cancel_notes_prefix :: string where
  \<comment> \<open>the Cyrillic literal of the source (``reason of the cancellation: ''), transliterated\<close>
  "cancel_notes_prefix = ''Prichina otmeny: ''"

definition cancel_order ::
  "datetime \<Rightarrow> db \<Rightarrow> int \<Rightarrow> int option \<Rightarrow> string option \<Rightarrow> real option \<Rightarrow> db \<times> bool" where
  "cancel_order now d oid cancelled_by rsn refund =
     (case get_order d oid of
        None \<Rightarrow> (d, False)
      | Some ord \<Rightarrow>
          if \<not> can_be_cancelled ord then (d, False)
          else
            let ord1 = ord\<lparr>cancelled_by_user_id := cancelled_by,
                           cancellation_reason := rsn\<rparr>;
                ord2 = (case refund of
                          None \<Rightarrow> ord1
                        | Some a \<Rightarrow> if a \<noteq> 0 then ord1\<lparr>refund_amount := Some a\<rparr> else ord1);
                reason_enum = (if truthy cancelled_by then CANCELLED_BY_CUSTOMER
                               else CANCELLED_BY_ADMIN);
                nts = (case rsn of
                         None \<Rightarrow> None
                       | Some txt \<Rightarrow> if txt \<noteq> [] then Some (cancel_notes_prefix @ txt) else None)
            in (case transition_status now (history d) ord2 CANCELLED reason_enum
                       cancelled_by nts None None True True of
                  ((ord', hist'), Inr h) \<Rightarrow>
                    (d\<lparr>orders := (orders d)(oid \<mapsto> ord'), history := hist'\<rparr>, True)
                | ((ord', hist'), Inl err) \<Rightarrow>
                    (d\<lparr>orders := (orders d)(oid \<mapsto> ord'), history := hist'\<rparr>, False)))"

section \<open>Scheduler (app/utils/scheduler.py)\<close>

record 'p ScheduledTask =
  task_id :: string
  execute_at :: datetime
  task_type :: string
  payload :: 'p
  retry_count :: int
  max_retries :: int

datatype outcome = Returned | Raises string

text \<open>
  A handler is a coroutine called with the payload; what it does outside the scheduler
  (database, transport) is not part of the scheduler's state, so a handler is modelled by
  its outcome at a clock reading: it returns, or it raises. \<open>tasks\<close> is the dictionary
  \<^verbatim>\<open>self.tasks\<close> in insertion order.
\<close>

type_synonym 'p handler = "datetime \<Rightarrow> 'p \<Rightarrow> outcome"

record 'p NotificationScheduler =
  running :: bool
  tasks :: "(string \<times> 'p ScheduledTask) list"
  task_handlers :: "string \<rightharpoonup> 'p handler"

definition schedule_task ::
  "string \<Rightarrow> datetime \<Rightarrow> string \<Rightarrow> 'p \<Rightarrow> int \<Rightarrow> 'p NotificationScheduler
   \<Rightarrow> 'p NotificationScheduler" where
  "schedule_task tid due ttype pl retries s =
     s\<lparr>tasks := AList.update tid
                   \<lparr>task_id = tid, execute_at = due, task_type = ttype, payload = pl,
                    retry_count = 0, max_retries = retries\<rparr>
                   (tasks s)\<rparr>"

definition cancel_task :: "string \<Rightarrow> 'p NotificationScheduler \<Rightarrow> 'p NotificationScheduler" where
  "cancel_task tid s = s\<lparr>tasks := AList.delete tid (tasks s)\<rparr>"

definition execute_task ::
  "datetime \<Rightarrow> 'p ScheduledTask \<Rightarrow> 'p NotificationScheduler \<Rightarrow> 'p NotificationScheduler" where
  "execute_task now task s =
     (case task_handlers s (task_type task) of
        None \<Rightarrow> s
      | Some handler \<Rightarrow>
          (case handler now (payload task) of
             Returned \<Rightarrow> s
           | Raises e \<Rightarrow>
               if retry_count task < max_retries task
               then
                 let task1 = task\<lparr>retry_count := retry_count task + 1\<rparr>;
                     task2 = task1\<lparr>execute_at :=
                                     now + timedelta_minutes (5 * retry_count task1)\<rparr>
                 in s\<lparr>tasks := AList.update (task_id task2) task2 (tasks s)\<rparr>
               else s))"

definition is_due :: "datetime \<Rightarrow> string \<times> 'p ScheduledTask \<Rightarrow> bool" where
  "is_due current_time kt = (execute_at (snd kt) \<le> current_time)"

definition process_due_tasks ::
  "datetime \<Rightarrow> 'p NotificationScheduler \<Rightarrow> 'p NotificationScheduler" where
  \<comment> \<open>the due tasks are taken out of the dictionary first, then executed in order; the
      sweep of the notification table that follows does not touch \<^verbatim>\<open>self.tasks\<close>\<close>
  "process_due_tasks now s =
     (let due_tasks = map snd (filter (is_due now) (tasks s));
          s1 = s\<lparr>tasks := filter (\<lambda>kt. \<not> is_due now kt) (tasks s)\<rparr>
      in fold (execute_task now) due_tasks s1)"

text \<open>
  The scheduler loop calls \<^verbatim>\<open>_process_due_tasks\<close> once per tick; \<open>run_ticks\<close> is the loop
  over the clock readings of its ticks. \<open>retry_rounds n k\<close> is the loop observed at the
  ticks at which the task stored under \<open>k\<close> falls due: \<open>n\<close> such ticks, each at the
  task's \<open>execute_at\<close>.
\<close>

fun run_ticks :: "datetime list \<Rightarrow> 'p NotificationScheduler \<Rightarrow> 'p NotificationScheduler" where
  "run_ticks [] s = s"
| "run_ticks (now # rest) s = run_ticks rest (process_due_tasks now s)"

fun retry_rounds :: "nat \<Rightarrow> string \<Rightarrow> 'p NotificationScheduler \<Rightarrow> 'p NotificationScheduler" where
  "retry_rounds 0 k s = s"
| "retry_rounds (Suc n) k s =
     (case map_of (tasks s) k of
        None \<Rightarrow> s
      | Some t \<Rightarrow> retry_rounds n k (process_due_tasks (execute_at t) s))"

definition keyed :: "(string \<times> 'p ScheduledTask) list \<Rightarrow> bool" where
  \<comment> \<open>a dictionary of tasks: one entry per key, each task under its own \<open>task_id\<close>\<close>
  "keyed q = (distinct (map fst q) \<and> list_all (\<lambda>kt. task_id (snd kt) = fst kt) q)"

section \<open>Notification service (app/services/notification.py)\<close>

datatype NotificationType =
  ORDER_CREATED | ORDER_CONFIRMED | ORDER_PREPARING | ORDER_READY | ORDER_COMPLETED
  | ORDER_CANCELLED | NT_PAYMENT_SUCCESS | NT_PAYMENT_FAILED | FEEDBACK_REQUEST
  | ADMIN_NEW_ORDER | ADMIN_PAYMENT_FAILED | ADMIN_DAILY_STATS

datatype NotificationStatus = NS_PENDING | NS_SENT | NS_DELIVERED | NS_FAILED | NS_SCHEDULED

datatype NotificationTarget = USER | ADMIN

type_synonym json = string

record Notification =
  notification_id :: int
  target_type :: NotificationTarget
  target_telegram_id :: int
  notification_type :: NotificationType
  notification_status :: NotificationStatus
  title :: "string option"
  message :: string
  notification_order_id :: "int option"
  notification_user_id :: "int option"
  scheduled_at :: "datetime option"
  sent_at :: "datetime option"
  notification_metadata :: "json option"
  error_message :: "string option"
  notification_retry_count :: int
  inline_keyboard :: "json option"

definition should_retry :: "Notification \<Rightarrow> bool" where
  "should_retry n = (notification_status n = NS_FAILED \<and> notification_retry_count n < 3)"

text \<open>
  The external transport: building the reply markup from the stored keyboard and calling
  \<^verbatim>\<open>bot.send_message(chat_id, text, reply_markup)\<close> either returns or raises.
\<close>

type_synonym transport = "int \<Rightarrow> string \<Rightarrow> json option \<Rightarrow> outcome"

definition store_notification :: "Notification \<Rightarrow> Notification list \<Rightarrow> Notification list" where
  \<comment> \<open>commit of a changed notification object: its row is replaced\<close>
  "store_notification n tbl =
     map (\<lambda>r. if notification_id r = notification_id n then n else r) tbl"

definition send_telegram_message ::
  "transport \<Rightarrow> datetime \<Rightarrow> Notification list \<Rightarrow> Notification
   \<Rightarrow> (Notification list \<times> Notification) \<times> bool" where
  "send_telegram_message tg now tbl n =
     (case tg (target_telegram_id n) (message n) (inline_keyboard n) of
        Returned \<Rightarrow>
          let n1 = n\<lparr>notification_status := NS_SENT, sent_at := Some now\<rparr>
          in ((store_notification n1 tbl, n1), True)
      | Raises e \<Rightarrow>
          let n1 = n\<lparr>notification_status := NS_FAILED, error_message := Some e,
                     notification_retry_count := notification_retry_count n + 1\<rparr>
          in ((store_notification n1 tbl, n1), False))"

text \<open>
  The arguments of a call are keyword arguments, as every caller in the repository
  writes them.
\<close>

datatype arg_value =
  VInt int | VStr string | VType NotificationType | VTarget NotificationTarget
  | VTime datetime | VJson json | VNone

type_synonym kwargs = "(string \<times> arg_value) list"

datatype call_error =
  UnexpectedKeyword string | MissingArgument string | AttributeError string

datatype send_result = ReturnsNotification "Notification option" | ReturnsBool bool

definition unexpected_keyword :: "string list \<Rightarrow> kwargs \<Rightarrow> string option" where
  \<comment> \<open>the first keyword of the call that is not a parameter of the function\<close>
  "unexpected_keyword params kw =
     (case filter (\<lambda>k. k \<notin> set params) (map fst kw) of [] \<Rightarrow> None | k # _ \<Rightarrow> Some k)"

definition next_notification_id :: "Notification list \<Rightarrow> int" where
  "next_notification_id tbl = foldr max (map notification_id tbl) 0 + 1"

definition kw_int :: "kwargs \<Rightarrow> string \<Rightarrow> int option" where
  "kw_int kw k = (case map_of kw k of Some (VInt i) \<Rightarrow> Some i | _ \<Rightarrow> None)"

definition kw_str :: "kwargs \<Rightarrow> string \<Rightarrow> string option" where
  "kw_str kw k = (case map_of kw k of Some (VStr x) \<Rightarrow> Some x | _ \<Rightarrow> None)"

definition kw_json :: "kwargs \<Rightarrow> string \<Rightarrow> json option" where
  "kw_json kw k = (case map_of kw k of Some (VJson x) \<Rightarrow> Some x | _ \<Rightarrow> None)"

definition kw_time :: "kwargs \<Rightarrow> string \<Rightarrow> datetime option" where
  "kw_time kw k = (case map_of kw k of Some (VTime t) \<Rightarrow> Some t | _ \<Rightarrow> None)"

definition send_notification_params :: "string list" where
  "send_notification_params =
     [''telegram_id'', ''message'', ''notification_type'', ''target_type'', ''order_id'',
      ''user_id'', ''title'', ''inline_keyboard'', ''schedule_for'', ''metadata'']"

text \<open>
  The method \<^verbatim>\<open>send_notification\<close> defined first in the class body (lines 31 to 74): it
  stores a notification row and, when no \<^verbatim>\<open>schedule_for\<close> is given, attempts delivery.
\<close>

definition send_notification_tracked ::
  "transport \<Rightarrow> datetime \<Rightarrow> Notification list \<Rightarrow> kwargs
   \<Rightarrow> Notification list \<times> (call_error + send_result)" where
  "send_notification_tracked tg now tbl kw =
     (case unexpected_keyword send_notification_params kw of
        Some k \<Rightarrow> (tbl, Inl (UnexpectedKeyword k))
      | None \<Rightarrow>
          (case (kw_int kw ''telegram_id'', kw_str kw ''message'',
                 map_of kw ''notification_type'') of
             (Some tid, Some msg, Some (VType nt)) \<Rightarrow>
               let schedule_for = kw_time kw ''schedule_for'';
                   n = \<lparr>notification_id = next_notification_id tbl,
                        target_type = (case map_of kw ''target_type'' of
                                         Some (VTarget tg) \<Rightarrow> tg | _ \<Rightarrow> USER),
                        target_telegram_id = tid,
                        notification_type = nt,
                        notification_status =
                          (if schedule_for \<noteq> None then NS_SCHEDULED else NS_PENDING),
                        title = kw_str kw ''title'',
                        message = msg,
                        notification_order_id = kw_int kw ''order_id'',
                        notification_user_id = kw_int kw ''user_id'',
                        scheduled_at = schedule_for,
                        sent_at = None,
                        notification_metadata =
                          (case kw_json kw ''metadata'' of None \<Rightarrow> Some ''{}'' | Some m \<Rightarrow> Some m),
                        error_message = None,
                        notification_retry_count = 0,
                        inline_keyboard = kw_json kw ''inline_keyboard''\<rparr>;
                   tbl1 = tbl @ [n]
               in if schedule_for = None
                  then (case send_telegram_message tg now tbl1 n of
                          ((tbl2, n2), ok) \<Rightarrow> (tbl2, Inr (ReturnsNotification (Some n2))))
                  else (tbl1, Inr (ReturnsNotification (Some n)))
           | (None, _, _) \<Rightarrow> (tbl, Inl (MissingArgument ''telegram_id''))
           | (_, None, _) \<Rightarrow> (tbl, Inl (MissingArgument ''message''))
           | _ \<Rightarrow> (tbl, Inl (MissingArgument ''notification_type''))))"

text \<open>
  The static methods at the end of the class body: \<^verbatim>\<open>send_user_notification\<close> and the
  second \<^verbatim>\<open>send_notification(telegram_id, message)\<close> (lines 717 to 721), which calls it.
  Neither touches the notification table.
\<close>

definition send_user_notification :: "transport \<Rightarrow> int \<Rightarrow> string \<Rightarrow> bool" where
  "send_user_notification tg tid msg =
     (case tg tid msg None of Returned \<Rightarrow> True | Raises e \<Rightarrow> False)"

definition send_notification_legacy ::
  "transport \<Rightarrow> Notification list \<Rightarrow> kwargs \<Rightarrow> Notification list \<times> (call_error + send_result)" where
  "send_notification_legacy tg tbl kw =
     (case unexpected_keyword [''telegram_id'', ''message''] kw of
        Some k \<Rightarrow> (tbl, Inl (UnexpectedKeyword k))
      | None \<Rightarrow>
          (case (kw_int kw ''telegram_id'', kw_str kw ''message'') of
             (Some tid, Some msg) \<Rightarrow>
               (tbl, Inr (ReturnsBool (send_user_notification tg tid msg)))
           | (None, _) \<Rightarrow> (tbl, Inl (MissingArgument ''telegram_id''))
           | _ \<Rightarrow> (tbl, Inl (MissingArgument ''message''))))"

text \<open>
  The names the class body of \<^verbatim>\<open>NotificationService\<close> binds, in source order. Executing
  a class body assigns each \<^verbatim>\<open>def\<close> to its name in the class namespace, so a later
  definition of a name replaces the earlier one.
\<close>

datatype member =
  Def_send_notification_31 | Def_send_telegram_message | Def_notify_order_created
  | Def_notify_admin_new_order | Def_notify_order_status_change
  | Def_schedule_feedback_request | Def_notify_payment_success | Def_notify_payment_failed
  | Def_save_feedback_rating | Def_process_scheduled_notifications
  | Def_retry_failed_notifications | Def_get_notification_stats
  | Def_send_admin_notification | Def_send_user_notification | Def_send_notification_719

definition class_body :: "(string \<times> member) list" where
  "class_body =
     [(''send_notification'', Def_send_notification_31),
      (''_send_telegram_message'', Def_send_telegram_message),
      (''notify_order_created'', Def_notify_order_created),
      (''_notify_admin_new_order'', Def_notify_admin_new_order),
      (''notify_order_status_change'', Def_notify_order_status_change),
      (''_schedule_feedback_request'', Def_schedule_feedback_request),
      (''notify_payment_success'', Def_notify_payment_success),
      (''notify_payment_failed'', Def_notify_payment_failed),
      (''save_feedback_rating'', Def_save_feedback_rating),
      (''process_scheduled_notifications'', Def_process_scheduled_notifications),
      (''retry_failed_notifications'', Def_retry_failed_notifications),
      (''get_notification_stats'', Def_get_notification_stats),
      (''send_admin_notification'', Def_send_admin_notification),
      (''send_user_notification'', Def_send_user_notification),
      (''send_notification'', Def_send_notification_719)]"

definition class_namespace :: "string \<rightharpoonup> member" where
  "class_namespace = fold (\<lambda>b ns. ns(fst b \<mapsto> snd b)) class_body Map.empty"

definition send_notification ::
  "transport \<Rightarrow> datetime \<Rightarrow> Notification list \<Rightarrow> kwargs
   \<Rightarrow> Notification list \<times> (call_error + send_result)" where
  \<comment> \<open>the call \<^verbatim>\<open>notification_service.send_notification(**kw)\<close>: attribute lookup in the
      class namespace, then the call of what was found\<close>
  "send_notification tg now tbl kw =
     (case class_namespace ''send_notification'' of
        Some Def_send_notification_31 \<Rightarrow> send_notification_tracked tg now tbl kw
      | Some Def_send_notification_719 \<Rightarrow> send_notification_legacy tg tbl kw
      | _ \<Rightarrow> (tbl, Inl (AttributeError ''send_notification'')))"

section \<open>Sample data\<close>

definition sample_order :: Order where
  "sample_order =
     \<lparr>order_id = 1, created_at = 0, is_deleted = False, user_id = 1, status = PENDING,
      payment_method = ''card'', priority = NORMAL, estimated_preparation_time = None,
      estimated_delivery_time = None, actual_preparation_start = None,
      actual_preparation_end = None, delivery_completed_at = None, status_pending_at = 0,
      status_confirmed_at = None, status_preparing_at = None, status_ready_at = None,
      status_completed_at = None, status_cancelled_at = None, delivery_type = ''delivery'',
      cancellation_reason = None, cancelled_by_user_id = None, refund_amount = None,
      preparation_duration = None, total_duration = None, automation_flags = Map.empty,
      workflow_metadata = Map.empty\<rparr>"

definition admits :: "db \<Rightarrow> OrderStatus \<Rightarrow> int \<Rightarrow> bool" where
  \<comment> \<open>the order exists and the transition table lets it move (or stay) to the target\<close>
  "admits d tgt oid =
     (case get_order d oid of
        None \<Rightarrow> False
      | Some ord \<Rightarrow> status ord = tgt \<or> tgt \<in> spec_allowed (status ord))"

section \<open>Names used in the statements\<close>

text \<open>
  \<open>new_history_row\<close> is the history row a successful \<open>transition_status\<close> inserts and
  \<open>moved\<close> is the order it leaves behind (with validation and automatic timing enabled, as
  the bulk operation and the order service call it). \<open>bulk_failure\<close> is the entry the bulk
  operation records for an order it could not move, and \<open>persisted\<close> says that the session
  holds the order of a success entry in the target status together with its history row.
\<close>

definition new_history_row ::
  "datetime \<Rightarrow> OrderStatusHistory list \<Rightarrow> Order \<Rightarrow> OrderStatus \<Rightarrow> StatusChangeReason
   \<Rightarrow> int option \<Rightarrow> string option \<Rightarrow> string option \<Rightarrow> (string \<rightharpoonup> meta_value) option
   \<Rightarrow> OrderStatusHistory" where
  "new_history_row now hist ord tgt rsn changed_by nts sys_msg wdata =
     insert_history now hist
       ((create_status_change (order_id ord) (Some (status_value (status ord)))
           (status_value tgt) rsn changed_by nts sys_msg wdata)
        \<lparr>duration_from_previous :=
           (if status ord \<noteq> tgt
            then (case get_last_status_history hist (order_id ord) of
                    None \<Rightarrow> None
                  | Some last_history \<Rightarrow> Some (whole_minutes (now - changed_at last_history)))
            else None)\<rparr>)"

definition moved ::
  "datetime \<Rightarrow> OrderStatusHistory list \<Rightarrow> Order \<Rightarrow> OrderStatus \<Rightarrow> StatusChangeReason
   \<Rightarrow> int option \<Rightarrow> string option \<Rightarrow> Order" where
  "moved now hist ord tgt rsn changed_by nts =
     execute_post_transition_hooks now
       (update_status_timestamps now (ord\<lparr>status := tgt\<rparr>) tgt True) tgt
       (new_history_row now hist ord tgt rsn changed_by nts None None)"

definition bulk_failure :: "db \<Rightarrow> OrderStatus \<Rightarrow> int \<Rightarrow> bulk_error" where
  "bulk_failure d tgt oid =
     (case get_order d oid of
        None \<Rightarrow> OrderNotFound
      | Some ord \<Rightarrow> Raised (StatusTransitionError (status ord) tgt (spec_allowed (status ord))))"

definition persisted :: "OrderStatus \<Rightarrow> db \<Rightarrow> success_entry \<Rightarrow> bool" where
  "persisted tgt d e =
     ((case get_order d (s_order_id e) of None \<Rightarrow> False | Some ord \<Rightarrow> status ord = tgt)
      \<and> list_ex (\<lambda>h. history_id h = s_history_id e \<and> to_status h = status_value tgt)
           (history d))"

definition preparing_order :: Order where
  "preparing_order =
     sample_order\<lparr>status := PREPARING, actual_preparation_start := Some 0,
                  actual_preparation_end := Some (timedelta_minutes 30)\<rparr>"

definition late_order :: Order where
  "late_order =
     sample_order\<lparr>status := PREPARING, estimated_preparation_time := Some 30,
                  status_confirmed_at := Some 0\<rparr>"

definition sample_db :: db where
  "sample_db =
     \<lparr>orders = [1 \<mapsto> sample_order,
                 2 \<mapsto> sample_order\<lparr>order_id := 2, status := READY\<rparr>],
      history = []\<rparr>"

definition sample_task :: "string ScheduledTask" where
  "sample_task =
     \<lparr>task_id = ''due_task'', execute_at = 0, task_type = ''send_notification'',
      payload = ''Due task'', retry_count = 0, max_retries = 3\<rparr>"

definition sample_scheduler :: "string NotificationScheduler" where
  \<comment> \<open>one due task whose handler raises at every attempt\<close>
  "sample_scheduler =
     \<lparr>running = True,
      tasks = [(''due_task'', sample_task)],
      task_handlers = [''send_notification'' \<mapsto> (\<lambda>clock pl. Raises ''unreachable'')]\<rparr>"

definition pending_notification :: Notification where
  "pending_notification =
     \<lparr>notification_id = 1, target_type = USER, target_telegram_id = 123456789,
      notification_type = ORDER_CREATED, notification_status = NS_PENDING, title = None,
      message = ''Test message'', notification_order_id = None,
      notification_user_id = None, scheduled_at = None, sent_at = None,
      notification_metadata = Some ''{}'', error_message = None,
      notification_retry_count = 0, inline_keyboard = None\<rparr>"

definition scheduled_notification :: Notification where
  "scheduled_notification =
     \<lparr>notification_id = 1, target_type = USER, target_telegram_id = 123456789,
      notification_type = FEEDBACK_REQUEST, notification_status = NS_SCHEDULED, title = None,
      message = ''Rate this order'', notification_order_id = None,
      notification_user_id = None, scheduled_at = Some (timedelta_hours 1), sent_at = None,
      notification_metadata = Some ''{}'', error_message = None,
      notification_retry_count = 0, inline_keyboard = None\<rparr>"

section \<open>Transition validator\<close>

lemma spec_allowed_eq: "spec_allowed s = valid_transitions s"
  by (cases s) (auto simp: spec_allowed_def spec_transition_table_def)

text \<open>
  C1. For every pair of statuses, validation succeeds exactly when the two are equal or the
  target is in the table row of the source; for every other pair it fails with the
  transition error carrying the source, the target and the set of allowed targets of the
  source.
\<close>

theorem validate_transition_table:
  "validate_transition src tgt =
     (if src = tgt \<or> tgt \<in> spec_allowed src
      then Inr ()
      else Inl (StatusTransitionError src tgt (spec_allowed src)))"
  by (simp add: validate_transition_def spec_allowed_eq Let_def)

theorem validate_transition_table_witness:
  "validate_transition PENDING CONFIRMED = Inr ()
   \<and> validate_transition READY READY = Inr ()
   \<and> validate_transition PENDING READY =
       Inl (StatusTransitionError PENDING READY {CONFIRMED, CANCELLED, FAILED})"
  using validate_transition_table [of PENDING CONFIRMED]
    validate_transition_table [of READY READY]
    validate_transition_table [of PENDING READY]
  by (simp add: spec_allowed_def spec_transition_table_def)

section \<open>A single transition\<close>

lemmas workflow_defs =
  transition_status_def validate_transition_def Let_def update_status_timestamps_def
  auto_calculate_timing_fields_def execute_post_transition_hooks_def
  schedule_automatic_transitions_def update_workflow_metadata_def set_automation_flag_def
  set_workflow_metadata_value_def on_order_confirmed_def on_order_preparing_def
  on_order_ready_def on_order_completed_def on_order_cancelled_def truthy_def
  timedelta_minutes_def whole_minutes_def create_status_change_def insert_history_def
  next_history_id_def get_last_status_history_def OrderStatusHistory_new.extend_def
  OrderStatusHistory.fields_def

lemmas sample_defs = sample_order_def preparing_order_def late_order_def

lemma transition_status_refused:
  assumes "tgt \<noteq> status ord" and "tgt \<notin> spec_allowed (status ord)"
  shows "transition_status now hist ord tgt rsn changed_by nts sys_msg wdata True ac =
           ((ord, hist),
            Inl (StatusTransitionError (status ord) tgt (spec_allowed (status ord))))"
  using assms
  by (simp add: transition_status_def validate_transition_def spec_allowed_eq Let_def)

lemma hooks_keep:
  "status (execute_post_transition_hooks now ord st h) = status ord"
  "estimated_preparation_time (execute_post_transition_hooks now ord st h) =
     estimated_preparation_time ord"
  "estimated_delivery_time (execute_post_transition_hooks now ord st h) =
     estimated_delivery_time ord"
  "actual_preparation_start (execute_post_transition_hooks now ord st h) =
     actual_preparation_start ord"
  "actual_preparation_end (execute_post_transition_hooks now ord st h) =
     actual_preparation_end ord"
  "preparation_duration (execute_post_transition_hooks now ord st h) =
     preparation_duration ord"
  "is_deleted (execute_post_transition_hooks now ord st h) = is_deleted ord"
  "order_id (execute_post_transition_hooks now ord st h) = order_id ord"
  by (simp_all add: execute_post_transition_hooks_def schedule_automatic_transitions_def
      update_workflow_metadata_def set_automation_flag_def set_workflow_metadata_value_def
      on_order_confirmed_def on_order_preparing_def on_order_ready_def on_order_completed_def
      on_order_cancelled_def Let_def)

lemma timestamps_keep:
  "status (update_status_timestamps now ord st ac) = status ord"
  "is_deleted (update_status_timestamps now ord st ac) = is_deleted ord"
  "order_id (update_status_timestamps now ord st ac) = order_id ord"
  by (cases st; simp add: update_status_timestamps_def auto_calculate_timing_fields_def Let_def
      split: option.splits)+

lemma transition_status_ok:
  assumes "validate \<longrightarrow> tgt = status ord \<or> tgt \<in> spec_allowed (status ord)"
  shows "transition_status now hist ord tgt rsn changed_by nts sys_msg wdata validate ac =
           ((execute_post_transition_hooks now
               (update_status_timestamps now (ord\<lparr>status := tgt\<rparr>) tgt ac) tgt
               (new_history_row now hist ord tgt rsn changed_by nts sys_msg wdata),
             hist @ [new_history_row now hist ord tgt rsn changed_by nts sys_msg wdata]),
            Inr (new_history_row now hist ord tgt rsn changed_by nts sys_msg wdata))"
  using assms
  by (auto simp: transition_status_def validate_transition_def spec_allowed_eq Let_def
      new_history_row_def)

text \<open>
  C2, as stated, asks for the transition error whenever the pair (current status, target) is
  not in the table. No row of the table contains its own source, so the pairs with target
  equal to the current status are such pairs; the engine accepts them, stamps the order and
  writes a history row.
\<close>

theorem same_status_transition_counterexample:
  "PENDING \<notin> spec_allowed (status sample_order)
   \<and> isl (snd (transition_status 60000000 [] sample_order PENDING MANUAL_ADMIN None None None
                  None True True)) = False
   \<and> length (snd (fst (transition_status 60000000 [] sample_order PENDING MANUAL_ADMIN None
                          None None None True True))) = 1
   \<and> status_pending_at sample_order = 0
   \<and> status_pending_at
        (fst (fst (transition_status 60000000 [] sample_order PENDING MANUAL_ADMIN None None
                     None None True True))) = 60000000
   \<and> automation_flags
        (fst (fst (transition_status 60000000 [] sample_order PENDING MANUAL_ADMIN None None
                     None None True True))) ''auto_transition_scheduled'' = Some True"
  by (simp add: sample_defs spec_allowed_eq workflow_defs)

text \<open>
  C2 (amended). For every order and every target status different from the current status
  and not in the table row of the current status, a transition with validation enabled
  returns the transition error and mutates nothing: the order (status, timestamps, timing
  fields, automation flags and all other fields) and the history table are as before.
\<close>

theorem invalid_transition_no_mutation:
  assumes "tgt \<noteq> status ord" and "tgt \<notin> spec_allowed (status ord)"
  shows "transition_status now hist ord tgt rsn changed_by nts sys_msg wdata True ac =
           ((ord, hist),
            Inl (StatusTransitionError (status ord) tgt (spec_allowed (status ord))))"
  using assms
  by (simp add: transition_status_def validate_transition_def spec_allowed_eq Let_def)

theorem invalid_transition_no_mutation_witness:
  "READY \<noteq> status sample_order \<and> READY \<notin> spec_allowed (status sample_order)
   \<and> transition_status 60000000 [] sample_order READY MANUAL_ADMIN None None None None
         True True =
       ((sample_order, []),
        Inl (StatusTransitionError PENDING READY {CONFIRMED, CANCELLED, FAILED}))"
  using invalid_transition_no_mutation
          [of READY sample_order 60000000 "[]" MANUAL_ADMIN None None None None True]
  by (simp add: sample_order_def spec_allowed_eq)

section \<open>Timing fields\<close>

text \<open>
  C4. An order entering CONFIRMED with automatic time calculation enabled: the transition
  succeeds; if the estimated preparation time was unset it becomes 15, 25, 35 or 45 minutes
  for priority VIP, HIGH, NORMAL or LOW; and the estimated delivery time becomes the clock
  reading plus the (new) estimated preparation time in minutes.
\<close>

theorem confirmed_sets_estimates:
  assumes "validate \<longrightarrow> status ord = CONFIRMED \<or> CONFIRMED \<in> spec_allowed (status ord)"
  shows "\<exists>ord' hist' h m.
           transition_status now hist ord CONFIRMED rsn changed_by nts sys_msg wdata
             validate True = ((ord', hist'), Inr h)
           \<and> status ord' = CONFIRMED
           \<and> (estimated_preparation_time ord = None \<longrightarrow>
                m = (case priority ord of VIP \<Rightarrow> 15 | HIGH \<Rightarrow> 25 | NORMAL \<Rightarrow> 35 | LOW \<Rightarrow> 45))
           \<and> estimated_preparation_time ord' = Some m
           \<and> estimated_delivery_time ord' = Some (now + m * 60000000)"
proof -
  let ?u = "update_status_timestamps now (ord\<lparr>status := CONFIRMED\<rparr>) CONFIRMED True"
  have ok: "validate \<longrightarrow> CONFIRMED = status ord \<or> CONFIRMED \<in> spec_allowed (status ord)"
    using assms by auto
  have "\<exists>m. (estimated_preparation_time ord = None \<longrightarrow>
                m = (case priority ord of VIP \<Rightarrow> 15 | HIGH \<Rightarrow> 25 | NORMAL \<Rightarrow> 35 | LOW \<Rightarrow> 45))
           \<and> estimated_preparation_time ?u = Some m
           \<and> estimated_delivery_time ?u = Some (now + m * 60000000)"
    by (cases "priority ord")
       (auto simp: update_status_timestamps_def auto_calculate_timing_fields_def truthy_def
          timedelta_minutes_def Let_def split: option.splits)
  then show ?thesis
    unfolding transition_status_ok [OF ok] by (simp add: hooks_keep timestamps_keep)
qed

theorem confirmed_sets_estimates_witness:
  "(status sample_order = CONFIRMED \<or> CONFIRMED \<in> spec_allowed (status sample_order))
   \<and> estimated_preparation_time
        (fst (fst (transition_status 60000000 [] sample_order CONFIRMED MANUAL_ADMIN None
                     None None None True True))) = Some 35
   \<and> estimated_delivery_time
        (fst (fst (transition_status 60000000 [] sample_order CONFIRMED MANUAL_ADMIN None
                     None None None True True))) = Some (60000000 + 35 * 60000000)"
  using confirmed_sets_estimates
          [of True sample_order 60000000 "[]" MANUAL_ADMIN None None None None]
  by (auto simp: sample_order_def spec_allowed_eq)

text \<open>
  C5, as stated, fails in two ways. Without automatic time calculation (the flag
  \<^verbatim>\<open>auto_calculate_times\<close> of the engine) nothing is recorded on entering READY. With it,
  the duration is measured up to the clock reading, not up to the recorded end of the
  preparation: with the start at T and the end already recorded at T + 30 min, a transition
  at T + 45 min stores 45, where \<open>calculate_preparation_duration\<close> of the order model
  gives 30.
\<close>

theorem ready_duration_counterexample:
  "actual_preparation_start preparing_order = Some 0
   \<and> actual_preparation_end preparing_order = Some (timedelta_minutes 30)
   \<and> preparation_duration preparing_order = None
   \<and> calculate_preparation_duration preparing_order = Some 30
   \<and> preparation_duration
        (fst (fst (transition_status (timedelta_minutes 45) [] preparing_order READY
                     KITCHEN_READY None None None None True True))) = Some 45
   \<and> actual_preparation_end
        (fst (fst (transition_status (timedelta_minutes 45) []
                     (preparing_order\<lparr>actual_preparation_end := None\<rparr>) READY KITCHEN_READY
                     None None None None True False))) = None"
  by (simp add: sample_defs spec_allowed_eq workflow_defs calculate_preparation_duration_def)

text \<open>
  C5 (amended). An order entering READY with automatic time calculation enabled: the
  transition succeeds; the end of the preparation is set to the clock reading if it was
  unset (and kept otherwise); and if the start of the preparation is set, the preparation
  duration is unset and the end of the preparation was unset before the transition, the
  preparation duration is set to the whole minutes between the start and the end just
  recorded.
\<close>

theorem ready_sets_preparation_end:
  assumes "validate \<longrightarrow> status ord = READY \<or> READY \<in> spec_allowed (status ord)"
  shows "\<exists>ord' hist' h.
           transition_status now hist ord READY rsn changed_by nts sys_msg wdata
             validate True = ((ord', hist'), Inr h)
           \<and> status ord' = READY
           \<and> actual_preparation_end ord' =
               Some (case actual_preparation_end ord of None \<Rightarrow> now | Some e \<Rightarrow> e)
           \<and> (\<forall>s. actual_preparation_start ord = Some s \<and> preparation_duration ord = None
                    \<and> actual_preparation_end ord = None \<longrightarrow>
                  (\<exists>e. actual_preparation_end ord' = Some e
                       \<and> preparation_duration ord' = Some (whole_minutes (e - s))))"
proof -
  let ?u = "update_status_timestamps now (ord\<lparr>status := READY\<rparr>) READY True"
  have ok: "validate \<longrightarrow> READY = status ord \<or> READY \<in> spec_allowed (status ord)"
    using assms by auto
  have A: "actual_preparation_end ?u =
               Some (case actual_preparation_end ord of None \<Rightarrow> now | Some e \<Rightarrow> e)"
    by (auto simp: update_status_timestamps_def auto_calculate_timing_fields_def truthy_def
          Let_def split: option.splits)
  have B: "preparation_duration ?u = Some (whole_minutes (now - s))"
    if "actual_preparation_start ord = Some s" "preparation_duration ord = None" for s
    using that
    by (auto simp: update_status_timestamps_def auto_calculate_timing_fields_def truthy_def
          Let_def split: option.splits)
  show ?thesis
    unfolding transition_status_ok [OF ok] using A B by (auto simp: hooks_keep timestamps_keep)
qed

theorem ready_sets_preparation_end_witness:
  "(status preparing_order = READY \<or> READY \<in> spec_allowed (status preparing_order))
   \<and> actual_preparation_end
        (fst (fst (transition_status (timedelta_minutes 45) []
                     (preparing_order\<lparr>actual_preparation_end := None\<rparr>) READY KITCHEN_READY
                     None None None None True True))) = Some (timedelta_minutes 45)
   \<and> preparation_duration
        (fst (fst (transition_status (timedelta_minutes 45) []
                     (preparing_order\<lparr>actual_preparation_end := None\<rparr>) READY KITCHEN_READY
                     None None None None True True))) = Some 45"
  using ready_sets_preparation_end
          [of True "preparing_order\<lparr>actual_preparation_end := None\<rparr>" "timedelta_minutes 45"
              "[]" KITCHEN_READY None None None None]
  by (auto simp: preparing_order_def sample_order_def spec_allowed_eq timedelta_minutes_def
      whole_minutes_def)

section \<open>Duration from the previous history row\<close>

lemma most_recent_None: "most_recent xs = None \<longleftrightarrow> xs = []"
  by (induction xs) (auto split: option.splits)

lemma most_recent_Max:
  "most_recent xs = Some h \<Longrightarrow> h \<in> set xs \<and> changed_at h = Max (changed_at ` set xs)"
proof (induction xs arbitrary: h)
  case Nil
  then show ?case by simp
next
  case (Cons x xs)
  show ?case
  proof (cases "most_recent xs")
    case None
    then have "xs = []" by (simp add: most_recent_None)
    with Cons.prems show ?thesis by simp
  next
    case (Some h')
    then have ih: "h' \<in> set xs" "changed_at h' = Max (changed_at ` set xs)"
      using Cons.IH by auto
    have ne: "changed_at ` set xs \<noteq> {}" using ih(1) by auto
    have "Max (changed_at ` set (x # xs)) = max (changed_at x) (Max (changed_at ` set xs))"
      using ne by simp
    with Cons.prems Some ih show ?thesis
      by (auto split: if_splits simp: max_def)
  qed
qed

text \<open>
  C6, as stated, asks for 0 when the order has no earlier history row. The engine leaves
  \<^verbatim>\<open>duration_from_previous\<close> unset (\<^verbatim>\<open>None\<close>) there.
\<close>

theorem first_transition_duration_counterexample:
  "get_last_status_history [] (order_id sample_order) = None
   \<and> map_sum id duration_from_previous
        (snd (transition_status 60000000 [] sample_order CONFIRMED MANUAL_ADMIN None None None
                None True True)) = Inr None"
  by (simp add: sample_defs spec_allowed_eq workflow_defs)

text \<open>
  C6 (amended). Every transition the engine performs appends one history row, stamped with
  the clock reading. Its \<^verbatim>\<open>duration_from_previous\<close> is unset when the target equals the
  current status or the order has no earlier history row; otherwise it is the whole
  minutes (truncated toward zero) between the latest \<^verbatim>\<open>changed_at\<close> among the order's
  earlier rows and the clock reading.
\<close>

theorem duration_from_previous_value:
  assumes "validate \<longrightarrow> tgt = status ord \<or> tgt \<in> spec_allowed (status ord)"
  shows "\<exists>ord' h.
           transition_status now hist ord tgt rsn changed_by nts sys_msg wdata validate ac =
             ((ord', hist @ [h]), Inr h)
           \<and> changed_at h = now
           \<and> duration_from_previous h =
               (if tgt = status ord \<or> (\<forall>r \<in> set hist. history_order_id r \<noteq> order_id ord)
                then None
                else Some (whole_minutes
                       (now - Max {changed_at r | r. r \<in> set hist
                                     \<and> history_order_id r = order_id ord})))"
proof -
  let ?rows = "filter (\<lambda>h. history_order_id h = order_id ord) hist"
  let ?row = "new_history_row now hist ord tgt rsn changed_by nts sys_msg wdata"
  have set_eq: "{changed_at r | r. r \<in> set hist \<and> history_order_id r = order_id ord}
                  = changed_at ` set ?rows"
    by auto
  have none: "(\<forall>r \<in> set hist. history_order_id r \<noteq> order_id ord) \<longleftrightarrow> ?rows = []"
    by (auto simp: filter_empty_conv)
  have "duration_from_previous ?row =
               (if tgt = status ord \<or> ?rows = []
                then None
                else Some (whole_minutes (now - Max (changed_at ` set ?rows))))"
  proof (cases "most_recent ?rows")
    case None
    then show ?thesis
      by (simp add: new_history_row_def insert_history_def get_last_status_history_def
          OrderStatusHistory_new.extend_def most_recent_None)
  next
    case (Some l)
    then have "changed_at l = Max (changed_at ` set ?rows)" "?rows \<noteq> []"
      using most_recent_Max [OF Some] most_recent_None [of ?rows] by auto
    with Some show ?thesis
      by (auto simp add: new_history_row_def insert_history_def get_last_status_history_def
          OrderStatusHistory_new.extend_def)
  qed
  moreover have "changed_at ?row = now"
    by (simp add: new_history_row_def insert_history_def OrderStatusHistory_new.extend_def
        OrderStatusHistory.fields_def)
  ultimately show ?thesis
    unfolding transition_status_ok [OF assms] set_eq none by simp
qed

theorem duration_from_previous_value_witness:
  "(PREPARING = status (sample_order\<lparr>status := CONFIRMED\<rparr>)
              \<or> PREPARING \<in> spec_allowed (status (sample_order\<lparr>status := CONFIRMED\<rparr>)))
   \<and> map_sum id duration_from_previous
        (snd (transition_status (timedelta_minutes 12)
                [new_history_row (timedelta_minutes 5) [] sample_order CONFIRMED MANUAL_ADMIN
                   None None None None]
                (sample_order\<lparr>status := CONFIRMED\<rparr>) PREPARING MANUAL_ADMIN None None None
                None True True)) = Inr (Some 7)"
  using duration_from_previous_value
          [of True PREPARING "sample_order\<lparr>status := CONFIRMED\<rparr>" "timedelta_minutes 12"
              "[new_history_row (timedelta_minutes 5) [] sample_order CONFIRMED MANUAL_ADMIN
                  None None None None]"
              MANUAL_ADMIN None None None None True]
  by (auto simp: sample_order_def spec_allowed_eq new_history_row_def insert_history_def
      create_status_change_def OrderStatusHistory_new.extend_def OrderStatusHistory.fields_def
      timedelta_minutes_def whole_minutes_def)

section \<open>Overdue orders\<close>

text \<open>
  C7, as stated, reads the column \<^verbatim>\<open>estimated_delivery_time\<close>. The model method does not:
  an order without that column, confirmed two hours ago with 30 minutes of estimated
  preparation, is overdue.
\<close>

theorem is_overdue_counterexample:
  "estimated_delivery_time late_order = None
   \<and> status late_order = PREPARING
   \<and> is_overdue (timedelta_hours 2) late_order"
  by (simp add: sample_defs is_overdue_def get_estimated_completion_time_def
      is_completed_state_def timedelta_hours_def timedelta_minutes_def)

text \<open>
  C7 (amended). An order is overdue if and only if its estimated preparation time is set
  and not zero, the clock reading is after the confirmation time (the creation time when
  the order was never confirmed) plus that many minutes, and the order is not in one of
  the states COMPLETED, CANCELLED, FAILED, REFUNDED.
\<close>

theorem is_overdue_iff:
  "is_overdue now ord \<longleftrightarrow>
     (\<exists>m. estimated_preparation_time ord = Some m \<and> m \<noteq> 0
          \<and> now > (case status_confirmed_at ord of Some t \<Rightarrow> t | None \<Rightarrow> created_at ord)
                   + m * 60000000)
     \<and> status ord \<notin> {COMPLETED, CANCELLED, FAILED, REFUNDED}"
  by (auto simp: is_overdue_def get_estimated_completion_time_def is_completed_state_def
      timedelta_minutes_def Let_def split: option.splits)

theorem is_overdue_iff_witness:
  "is_overdue (timedelta_hours 2) late_order
   \<and> \<not> is_overdue (timedelta_hours 2) (late_order\<lparr>status := COMPLETED\<rparr>)
   \<and> \<not> is_overdue (timedelta_minutes 10) late_order"
  using is_overdue_iff [of "timedelta_hours 2" late_order]
    is_overdue_iff [of "timedelta_hours 2" "late_order\<lparr>status := COMPLETED\<rparr>"]
    is_overdue_iff [of "timedelta_minutes 10" late_order]
  by (simp add: late_order_def sample_order_def timedelta_hours_def timedelta_minutes_def)

section \<open>Cancelling an order\<close>

lemma cancel_order_refused:
  assumes "get_order d oid = Some ord"
    and "status ord \<in> {READY, COMPLETED, CANCELLED, REFUNDED, FAILED}"
  shows "cancel_order now d oid changed_by rsn refund = (d, False)"
  using assms by (auto simp: cancel_order_def can_be_cancelled_def)

lemma cancel_order_done:
  assumes "get_order d oid = Some ord" and "status ord \<in> {PENDING, CONFIRMED, PREPARING}"
  shows "snd (cancel_order now d oid changed_by rsn refund) = True
         \<and> (\<exists>ord'. orders (fst (cancel_order now d oid changed_by rsn refund)) oid = Some ord'
                    \<and> status ord' = CANCELLED)"
proof -
  have c: "can_be_cancelled ord" using assms(2) by (auto simp: can_be_cancelled_def)
  have ok: "True \<longrightarrow> CANCELLED = status ord2 \<or> CANCELLED \<in> spec_allowed (status ord2)"
    if "status ord2 = status ord" for ord2
    using assms(2) that by (auto simp: spec_allowed_eq)
  show ?thesis
    using assms(1) c
    by (auto simp: cancel_order_def Let_def transition_status_ok ok hooks_keep timestamps_keep
        split: option.splits)
qed

text \<open>
  C10. \<open>cancel_order\<close> cancels only orders in PENDING, CONFIRMED or PREPARING: for a missing
  order, and for an order in READY or in a terminal status, it returns False and leaves the
  session as it was; for the three early statuses it returns True and the order is
  CANCELLED. The transition table itself accepts the edge from READY to CANCELLED.
\<close>

theorem cancel_order_only_before_ready:
  "(get_order d oid = None \<longrightarrow> cancel_order now d oid changed_by rsn refund = (d, False))
   \<and> (\<forall>ord. get_order d oid = Some ord
              \<and> status ord \<in> {READY, COMPLETED, CANCELLED, REFUNDED, FAILED} \<longrightarrow>
            cancel_order now d oid changed_by rsn refund = (d, False))
   \<and> (\<forall>ord. get_order d oid = Some ord \<and> status ord \<in> {PENDING, CONFIRMED, PREPARING} \<longrightarrow>
            snd (cancel_order now d oid changed_by rsn refund) = True
            \<and> (\<exists>ord'. orders (fst (cancel_order now d oid changed_by rsn refund)) oid = Some ord'
                       \<and> status ord' = CANCELLED))
   \<and> validate_transition READY CANCELLED = Inr ()"
proof -
  have "get_order d oid = None \<longrightarrow> cancel_order now d oid changed_by rsn refund = (d, False)"
    by (simp add: cancel_order_def)
  moreover have "validate_transition READY CANCELLED = Inr ()"
    by (simp add: validate_transition_def)
  ultimately show ?thesis
    using cancel_order_refused [of d oid _ now changed_by rsn refund]
      cancel_order_done [of d oid _ now changed_by rsn refund]
    by blast
qed

theorem cancel_order_only_before_ready_witness:
  "get_order sample_db 2 = Some (sample_order\<lparr>order_id := 2, status := READY\<rparr>)
   \<and> cancel_order 60000000 sample_db 2 None (Some ''late'') None = (sample_db, False)
   \<and> get_order sample_db 1 = Some sample_order
   \<and> snd (cancel_order 60000000 sample_db 1 None (Some ''late'') None) = True
   \<and> get_order sample_db 3 = None
   \<and> cancel_order 60000000 sample_db 3 None (Some ''late'') None = (sample_db, False)"
  using cancel_order_only_before_ready [of sample_db 2 60000000 None "Some ''late''" None]
    cancel_order_only_before_ready [of sample_db 1 60000000 None "Some ''late''" None]
    cancel_order_only_before_ready [of sample_db 3 60000000 None "Some ''late''" None]
  by (simp add: sample_db_def get_order_def sample_order_def)

section \<open>Bulk transitions\<close>

lemma moved_fields:
  "status (moved now hist ord tgt rsn changed_by nts) = tgt"
  "is_deleted (moved now hist ord tgt rsn changed_by nts) = is_deleted ord"
  by (simp_all add: moved_def hooks_keep timestamps_keep)

lemma new_history_row_fields:
  "to_status (new_history_row now hist ord tgt rsn changed_by nts sys_msg wdata) =
     status_value tgt"
  "from_status (new_history_row now hist ord tgt rsn changed_by nts sys_msg wdata) =
     Some (status_value (status ord))"
  "history_id (new_history_row now hist ord tgt rsn changed_by nts sys_msg wdata) =
     next_history_id hist"
  by (simp_all add: new_history_row_def insert_history_def create_status_change_def
      OrderStatusHistory_new.extend_def OrderStatusHistory.fields_def)

lemma admits_iff:
  "admits d tgt oid \<longleftrightarrow>
     (\<exists>ord. get_order d oid = Some ord
            \<and> (status ord = tgt \<or> tgt \<in> spec_allowed (status ord)))"
  by (auto simp: admits_def split: option.splits)

lemma bulk_step_admitted:
  assumes "get_order d oid = Some ord"
    and "status ord = tgt \<or> tgt \<in> spec_allowed (status ord)"
  shows "bulk_step now tgt rsn changed_by nts oid (d, r) =
           (d\<lparr>orders := (orders d)(oid \<mapsto> moved now (history d) ord tgt rsn changed_by nts),
              history := history d @
                [new_history_row now (history d) ord tgt rsn changed_by nts None None]\<rparr>,
            r\<lparr>total_processed := total_processed r + 1,
              successful := successful r @
                [\<lparr>s_order_id = oid, s_old_status = Some (status_value (status ord)),
                  s_new_status = status_value tgt,
                  s_history_id = next_history_id (history d)\<rparr>],
              success_count := success_count r + 1\<rparr>)"
proof -
  have ok: "True \<longrightarrow> tgt = status ord \<or> tgt \<in> spec_allowed (status ord)"
    using assms(2) by auto
  show ?thesis
    using assms(1)
    by (simp add: bulk_step_def Let_def transition_status_ok [OF ok] moved_def
        new_history_row_fields)
qed

lemma bulk_step_refused:
  assumes "\<not> admits d tgt oid"
  shows "bulk_step now tgt rsn changed_by nts oid (d, r) =
           (d, r\<lparr>total_processed := total_processed r + 1,
                 failed := failed r @ [(oid, bulk_failure d tgt oid)],
                 failure_count := failure_count r + 1\<rparr>)"
proof (cases "get_order d oid")
  case None
  then show ?thesis by (simp add: bulk_step_def Let_def bulk_failure_def)
next
  case (Some ord)
  with assms have t: "tgt \<noteq> status ord" "tgt \<notin> spec_allowed (status ord)"
    by (auto simp: admits_iff)
  have o: "orders d oid = Some ord"
    using Some by (auto simp: get_order_def split: option.splits if_splits)
  show ?thesis
    using Some o
    by (simp add: bulk_step_def Let_def transition_status_refused [OF t] map_upd_triv
        bulk_failure_def)
qed

lemma admits_after_step:
  "admits (fst (bulk_step now tgt rsn changed_by nts oid (d, r))) tgt i = admits d tgt i"
proof (cases "admits d tgt oid")
  case False
  then show ?thesis by (simp add: bulk_step_refused)
next
  case True
  then obtain ord where o: "get_order d oid = Some ord"
      "status ord = tgt \<or> tgt \<in> spec_allowed (status ord)"
    by (auto simp: admits_iff)
  then have nd: "\<not> is_deleted ord"
    by (auto simp: get_order_def split: option.splits if_splits)
  show ?thesis
  proof (cases "i = oid")
    case True
    with o nd \<open>admits d tgt oid\<close> show ?thesis
      by (simp add: bulk_step_admitted [OF o] admits_def get_order_def moved_fields)
  next
    case False
    then show ?thesis
      by (simp add: bulk_step_admitted [OF o] admits_def get_order_def)
  qed
qed

lemma bulk_fold_results:
  "total_processed (snd (fold (bulk_step now tgt rsn changed_by nts) ids (d, r))) =
     total_processed r + int (length ids)
   \<and> success_count (snd (fold (bulk_step now tgt rsn changed_by nts) ids (d, r))) =
       success_count r + int (length (filter (admits d tgt) ids))
   \<and> failure_count (snd (fold (bulk_step now tgt rsn changed_by nts) ids (d, r))) =
       failure_count r + int (length (filter (\<lambda>i. \<not> admits d tgt i) ids))
   \<and> map s_order_id (successful (snd (fold (bulk_step now tgt rsn changed_by nts) ids (d, r)))) =
       map s_order_id (successful r) @ filter (admits d tgt) ids
   \<and> failed (snd (fold (bulk_step now tgt rsn changed_by nts) ids (d, r))) =
       failed r @ map (\<lambda>i. (i, bulk_failure d tgt i)) (filter (\<lambda>i. \<not> admits d tgt i) ids)"
proof (induction ids arbitrary: d r)
  case Nil
  show ?case by simp
next
  case (Cons oid ids)
  obtain d1 r1 where st: "bulk_step now tgt rsn changed_by nts oid (d, r) = (d1, r1)"
    by (cases "bulk_step now tgt rsn changed_by nts oid (d, r)")
  have adm: "admits d1 tgt = admits d tgt"
    using admits_after_step [of now tgt rsn changed_by nts oid d r] st by (auto simp: fun_eq_iff)
  have fold_eq: "fold (bulk_step now tgt rsn changed_by nts) (oid # ids) (d, r) =
                   fold (bulk_step now tgt rsn changed_by nts) ids (d1, r1)"
    by (simp add: st)
  note IH = Cons.IH [of d1 r1, unfolded adm]
  show ?case
  proof (cases "admits d tgt oid")
    case True
    then obtain ord where o: "get_order d oid = Some ord"
        "status ord = tgt \<or> tgt \<in> spec_allowed (status ord)"
      by (auto simp: admits_iff)
    have d1: "orders d1 = (orders d)(oid \<mapsto> moved now (history d) ord tgt rsn changed_by nts)"
      and r1: "total_processed r1 = total_processed r + 1"
        "success_count r1 = success_count r + 1"
        "failure_count r1 = failure_count r"
        "map s_order_id (successful r1) = map s_order_id (successful r) @ [oid]"
        "failed r1 = failed r"
      using st unfolding bulk_step_admitted [OF o] by auto
    have fl: "bulk_failure d1 tgt i = bulk_failure d tgt i" if "\<not> admits d tgt i" for i
    proof -
      from that True have "i \<noteq> oid" by auto
      then show ?thesis
        by (simp add: bulk_failure_def get_order_def d1)
    qed
    have m: "map (\<lambda>i. (i, bulk_failure d1 tgt i)) (filter (\<lambda>i. \<not> admits d tgt i) ids)
            = map (\<lambda>i. (i, bulk_failure d tgt i)) (filter (\<lambda>i. \<not> admits d tgt i) ids)"
      by (rule map_cong) (auto simp: fl)
    show ?thesis
      unfolding fold_eq using IH True by (simp add: r1 m)
  next
    case False
    have d1: "d1 = d"
      and r1: "total_processed r1 = total_processed r + 1"
        "success_count r1 = success_count r"
        "failure_count r1 = failure_count r + 1"
        "successful r1 = successful r"
        "failed r1 = failed r @ [(oid, bulk_failure d tgt oid)]"
      using st unfolding bulk_step_refused [OF False] by auto
    show ?thesis
      unfolding fold_eq using IH False by (simp add: r1 d1)
  qed
qed

lemma fold_invariant:
  assumes "I s" and "\<And>x s. I s \<Longrightarrow> I (f x s)"
  shows "I (fold f xs s)"
  using assms(1) by (induction xs arbitrary: s) (auto intro: assms(2))

lemma persisted_step:
  assumes "\<forall>e \<in> set (successful (snd dr)). persisted tgt (fst dr) e"
  shows "\<forall>e \<in> set (successful (snd (bulk_step now tgt rsn changed_by nts oid dr))).
           persisted tgt (fst (bulk_step now tgt rsn changed_by nts oid dr)) e"
proof -
  obtain d r where dr: "dr = (d, r)" by (cases dr)
  show ?thesis
  proof (cases "admits d tgt oid")
    case False
    then show ?thesis using assms by (simp add: dr bulk_step_refused)
  next
    case True
    then obtain ord where o: "get_order d oid = Some ord"
        "status ord = tgt \<or> tgt \<in> spec_allowed (status ord)"
      by (auto simp: admits_iff)
    then have nd: "\<not> is_deleted ord"
      by (auto simp: get_order_def split: option.splits if_splits)
    let ?d1 = "d\<lparr>orders := (orders d)(oid \<mapsto> moved now (history d) ord tgt rsn changed_by nts),
                 history := history d @
                   [new_history_row now (history d) ord tgt rsn changed_by nts None None]\<rparr>"
    have old: "persisted tgt ?d1 e" if "persisted tgt d e" for e
      using that nd
      by (auto simp: persisted_def get_order_def moved_fields split: option.splits if_splits)
    have new: "persisted tgt ?d1
                 \<lparr>s_order_id = oid, s_old_status = Some (status_value (status ord)),
                  s_new_status = status_value tgt,
                  s_history_id = next_history_id (history d)\<rparr>"
      using nd by (simp add: persisted_def get_order_def moved_fields new_history_row_fields)
    show ?thesis
      using assms old new by (auto simp: dr bulk_step_admitted [OF o])
  qed
qed

lemma untouched_step:
  assumes "\<not> admits d tgt i"
  shows "orders (fst (bulk_step now tgt rsn changed_by nts oid (d, r))) i = orders d i"
proof (cases "admits d tgt oid")
  case False
  then show ?thesis by (simp add: bulk_step_refused)
next
  case True
  then obtain ord where o: "get_order d oid = Some ord"
      "status ord = tgt \<or> tgt \<in> spec_allowed (status ord)"
    by (auto simp: admits_iff)
  from True assms have "i \<noteq> oid" by auto
  then show ?thesis by (simp add: bulk_step_admitted [OF o])
qed

lemma bulk_fold_untouched:
  "\<forall>i. admits (fst (fold (bulk_step now tgt rsn changed_by nts) ids (d, r))) tgt i = admits d tgt i
       \<and> (\<not> admits d tgt i \<longrightarrow>
            orders (fst (fold (bulk_step now tgt rsn changed_by nts) ids (d, r))) i = orders d i)"
proof (induction ids arbitrary: d r)
  case Nil
  show ?case by simp
next
  case (Cons oid ids)
  obtain d1 r1 where st: "bulk_step now tgt rsn changed_by nts oid (d, r) = (d1, r1)"
    by (cases "bulk_step now tgt rsn changed_by nts oid (d, r)")
  have adm: "admits d1 tgt i = admits d tgt i" for i
    using admits_after_step [of now tgt rsn changed_by nts oid d r i] st by simp
  have unt: "orders d1 i = orders d i" if "\<not> admits d tgt i" for i
    using untouched_step [OF that, of now rsn changed_by nts oid r] st by simp
  show ?case
    using Cons.IH [of d1 r1] by (simp add: st adm unt)
qed

text \<open>
  C3. The bulk operation processes every id of its input, in order and independently: an id
  goes to \<open>successful\<close> exactly when its order exists and the table admits the transition,
  and to \<open>failed\<close> otherwise (with ``not found'' or the transition error), whatever
  happens to the other ids. The counters are the lengths of the lists,
  \<open>total_processed = success_count + failure_count\<close> is the length of the input, every
  success entry has its order stored in the target status with its history row, and the
  orders of failed ids are untouched.
\<close>

theorem bulk_transition_independent:
  assumes "bulk_transition_orders now d ids tgt rsn changed_by nts = (d', r)"
  shows "total_processed r = int (length ids)
         \<and> success_count r + failure_count r = total_processed r
         \<and> success_count r = int (length (successful r))
         \<and> failure_count r = int (length (failed r))
         \<and> map s_order_id (successful r) = filter (admits d tgt) ids
         \<and> failed r = map (\<lambda>i. (i, bulk_failure d tgt i)) (filter (\<lambda>i. \<not> admits d tgt i) ids)
         \<and> (\<forall>e \<in> set (successful r). persisted tgt d' e)
         \<and> (\<forall>i. \<not> admits d tgt i \<longrightarrow> orders d' i = orders d i)"
proof -
  let ?r0 = "\<lparr>successful = [], failed = [], total_processed = 0,
              success_count = 0, failure_count = 0\<rparr>"
  let ?res = "fold (bulk_step now tgt rsn changed_by nts) ids (d, ?r0)"
  have res: "?res = (d', r)"
    using assms by (simp add: bulk_transition_orders_def)
  have counts:
    "total_processed r = int (length ids)"
    "success_count r = int (length (filter (admits d tgt) ids))"
    "failure_count r = int (length (filter (\<lambda>i. \<not> admits d tgt i) ids))"
    "map s_order_id (successful r) = filter (admits d tgt) ids"
    "failed r = map (\<lambda>i. (i, bulk_failure d tgt i)) (filter (\<lambda>i. \<not> admits d tgt i) ids)"
    using bulk_fold_results [of now tgt rsn changed_by nts ids d ?r0] unfolding res by simp_all
  have len: "length (filter (admits d tgt) ids) + length (filter (\<lambda>i. \<not> admits d tgt i) ids)
               = length ids"
    by (rule sum_length_filter_compl)
  have ls: "length (successful r) = length (filter (admits d tgt) ids)"
    using arg_cong [OF counts(4), of length] by simp
  have lf: "length (failed r) = length (filter (\<lambda>i. \<not> admits d tgt i) ids)"
    by (simp add: counts(5))
  have pers: "\<forall>e \<in> set (successful (snd ?res)). persisted tgt (fst ?res) e"
    by (rule fold_invariant [where I = "\<lambda>dr. \<forall>e \<in> set (successful (snd dr)).
                                              persisted tgt (fst dr) e"])
       (simp, rule persisted_step)
  have unt: "\<forall>i. \<not> admits d tgt i \<longrightarrow> orders d' i = orders d i"
    using bulk_fold_untouched [of now tgt rsn changed_by nts ids d ?r0] unfolding res by simp
  show ?thesis
    using counts len ls lf pers unt unfolding res by simp
qed

theorem bulk_transition_independent_witness:
  "total_processed (snd (bulk_transition_orders 60000000 sample_db [1, 2, 3] CONFIRMED
                           MANUAL_ADMIN None None)) = 3
   \<and> success_count (snd (bulk_transition_orders 60000000 sample_db [1, 2, 3] CONFIRMED
                           MANUAL_ADMIN None None)) = 1
   \<and> failure_count (snd (bulk_transition_orders 60000000 sample_db [1, 2, 3] CONFIRMED
                           MANUAL_ADMIN None None)) = 2
   \<and> map s_order_id (successful (snd (bulk_transition_orders 60000000 sample_db [1, 2, 3]
                                         CONFIRMED MANUAL_ADMIN None None))) = [1]
   \<and> failed (snd (bulk_transition_orders 60000000 sample_db [1, 2, 3] CONFIRMED
                    MANUAL_ADMIN None None)) =
       [(2, Raised (StatusTransitionError READY CONFIRMED {COMPLETED, CANCELLED})),
        (3, OrderNotFound)]"
proof -
  obtain d' r where res:
    "bulk_transition_orders 60000000 sample_db [1, 2, 3] CONFIRMED MANUAL_ADMIN None None = (d', r)"
    by (cases "bulk_transition_orders 60000000 sample_db [1, 2, 3] CONFIRMED MANUAL_ADMIN None None")
  have a: "admits sample_db CONFIRMED 1" "\<not> admits sample_db CONFIRMED 2"
    "\<not> admits sample_db CONFIRMED 3"
    by (simp_all add: admits_def get_order_def sample_db_def sample_order_def spec_allowed_eq)
  have f: "bulk_failure sample_db CONFIRMED 2 =
             Raised (StatusTransitionError READY CONFIRMED {COMPLETED, CANCELLED})"
    "bulk_failure sample_db CONFIRMED 3 = OrderNotFound"
    by (simp_all add: bulk_failure_def get_order_def sample_db_def sample_order_def
        spec_allowed_eq)
  note t = bulk_transition_independent [OF res]
  have m: "map s_order_id (successful r) = [1]"
    using t a by simp
  have l: "length (successful r) = 1"
    using arg_cong [OF m, of length] by simp
  show ?thesis
    using t a f l unfolding res by simp
qed

section \<open>Scheduler retries\<close>

lemma keyed_update:
  assumes "keyed q" and "task_id v = k"
  shows "keyed (AList.update k v q)"
proof -
  have "list_all (\<lambda>kt. task_id (snd kt) = fst kt) (AList.update k v q)"
    if "list_all (\<lambda>kt. task_id (snd kt) = fst kt) q"
    using that assms(2) by (induction q) auto
  with assms(1) show ?thesis
    by (simp add: keyed_def distinct_update)
qed

lemma keyed_filter: "keyed q \<Longrightarrow> keyed (filter P q)"
  by (simp add: keyed_def distinct_map_filter list_all_iff)

lemma keyed_id: "keyed q \<Longrightarrow> (k, u) \<in> set q \<Longrightarrow> task_id u = k"
  by (auto simp: keyed_def list_all_iff)

lemma execute_task_handlers: "task_handlers (execute_task now u s) = task_handlers s"
  by (simp add: execute_task_def Let_def split: option.splits outcome.splits)

lemma execute_task_keyed: "keyed (tasks s) \<Longrightarrow> keyed (tasks (execute_task now u s))"
  by (simp add: execute_task_def Let_def keyed_update split: option.splits outcome.splits)

lemma execute_task_other:
  "task_id u \<noteq> k \<Longrightarrow> map_of (tasks (execute_task now u s)) k = map_of (tasks s) k"
  by (simp add: execute_task_def Let_def update_conv' split: option.splits outcome.splits)

lemma fold_execute_handlers:
  "task_handlers (fold (execute_task now) us s) = task_handlers s"
  by (induction us arbitrary: s) (simp_all add: execute_task_handlers)

lemma fold_execute_keyed:
  "keyed (tasks s) \<Longrightarrow> keyed (tasks (fold (execute_task now) us s))"
  by (induction us arbitrary: s) (simp_all add: execute_task_keyed)

lemma fold_execute_other:
  "\<forall>u \<in> set us. task_id u \<noteq> k \<Longrightarrow>
   map_of (tasks (fold (execute_task now) us s)) k = map_of (tasks s) k"
  by (induction us arbitrary: s) (simp_all add: execute_task_other)

lemma execute_task_failing:
  assumes "task_handlers s (task_type t) = Some h" and "h now (payload t) = Raises e"
  shows "map_of (tasks (execute_task now t s)) (task_id t) =
           (if retry_count t < max_retries t
            then Some (t\<lparr>retry_count := retry_count t + 1,
                         execute_at := now + 5 * (retry_count t + 1) * 60000000\<rparr>)
            else map_of (tasks s) (task_id t))"
  using assms by (simp add: execute_task_def Let_def update_conv' timedelta_minutes_def)

lemma process_due_handlers: "task_handlers (process_due_tasks now s) = task_handlers s"
  by (simp add: process_due_tasks_def Let_def fold_execute_handlers)

lemma process_due_keyed: "keyed (tasks s) \<Longrightarrow> keyed (tasks (process_due_tasks now s))"
  by (simp add: process_due_tasks_def Let_def fold_execute_keyed keyed_filter)

lemma process_due_absent:
  assumes "keyed (tasks s)" and "map_of (tasks s) k = None"
  shows "map_of (tasks (process_due_tasks now s)) k = None"
proof -
  have nk: "k \<notin> fst ` set (tasks s)"
    using assms(2) by (simp add: map_of_eq_None_iff)
  have "\<forall>u \<in> set (map snd (filter (is_due now) (tasks s))). task_id u \<noteq> k"
  proof
    fix u assume "u \<in> set (map snd (filter (is_due now) (tasks s)))"
    then obtain k' where "(k', u) \<in> set (tasks s)" by auto
    then have "task_id u = k'" "k' \<in> fst ` set (tasks s)"
      using keyed_id [OF assms(1)] by force+
    with nk show "task_id u \<noteq> k" by auto
  qed
  moreover have "map_of (filter (\<lambda>kt. \<not> is_due now kt) (tasks s)) k = None"
    using nk by (auto simp: map_of_eq_None_iff)
  ultimately show ?thesis
    by (simp add: process_due_tasks_def Let_def fold_execute_other)
qed

lemma process_due_failing:
  assumes q: "keyed (tasks s)" and m: "map_of (tasks s) k = Some t"
    and due: "execute_at t \<le> now"
    and h: "task_handlers s (task_type t) = Some h" "h now (payload t) = Raises e"
  shows "map_of (tasks (process_due_tasks now s)) k =
           (if retry_count t < max_retries t
            then Some (t\<lparr>retry_count := retry_count t + 1,
                         execute_at := now + 5 * (retry_count t + 1) * 60000000\<rparr>)
            else None)"
proof -
  let ?due = "filter (is_due now) (tasks s)"
  let ?s1 = "s\<lparr>tasks := filter (\<lambda>kt. \<not> is_due now kt) (tasks s)\<rparr>"
  have dist: "distinct (map fst (tasks s))" using q by (simp add: keyed_def)
  have mem: "(k, t) \<in> set (tasks s)" using m by (rule map_of_SomeD)
  then have "(k, t) \<in> set ?due" using due by (simp add: is_due_def)
  then obtain xs ys where split: "?due = xs @ (k, t) # ys"
    by (auto dest: split_list)
  have tid: "task_id t = k" using keyed_id [OF q mem] .
  have "distinct (map fst ?due)" using dist by (rule distinct_map_filter)
  then have kx: "k \<notin> fst ` set xs" and ky: "k \<notin> fst ` set ys"
    unfolding split by auto
  have sub: "set xs \<subseteq> set (tasks s)" "set ys \<subseteq> set (tasks s)"
  proof -
    have "set ?due \<subseteq> set (tasks s)" by auto
    then show "set xs \<subseteq> set (tasks s)" "set ys \<subseteq> set (tasks s)"
      unfolding split by auto
  qed
  have ox: "\<forall>u \<in> set (map snd xs). task_id u \<noteq> k"
  proof
    fix u assume "u \<in> set (map snd xs)"
    then obtain k' where k': "(k', u) \<in> set xs" by auto
    then have "task_id u = k'" using keyed_id [OF q] sub(1) by blast
    moreover have "k' \<noteq> k" using k' kx by force
    ultimately show "task_id u \<noteq> k" by simp
  qed
  have oy: "\<forall>u \<in> set (map snd ys). task_id u \<noteq> k"
  proof
    fix u assume "u \<in> set (map snd ys)"
    then obtain k' where k': "(k', u) \<in> set ys" by auto
    then have "task_id u = k'" using keyed_id [OF q] sub(2) by blast
    moreover have "k' \<noteq> k" using k' ky by force
    ultimately show "task_id u \<noteq> k" by simp
  qed
  have none: "map_of (tasks ?s1) k = None"
  proof -
    have "k \<notin> fst ` set (filter (\<lambda>kt. \<not> is_due now kt) (tasks s))"
    proof
      assume "k \<in> fst ` set (filter (\<lambda>kt. \<not> is_due now kt) (tasks s))"
      then obtain v where v: "(k, v) \<in> set (tasks s)" "\<not> is_due now (k, v)" by auto
      from v(1) dist have "map_of (tasks s) k = Some v" by simp
      with m have "v = t" by simp
      with v(2) due show False by (simp add: is_due_def)
    qed
    then show ?thesis by (simp add: map_of_eq_None_iff)
  qed
  let ?a = "fold (execute_task now) (map snd xs) ?s1"
  have a: "map_of (tasks ?a) k = None" "task_handlers ?a (task_type t) = Some h"
    using none h(1) by (simp_all add: fold_execute_other [OF ox] fold_execute_handlers)
  have b: "map_of (tasks (execute_task now t ?a)) k =
             (if retry_count t < max_retries t
              then Some (t\<lparr>retry_count := retry_count t + 1,
                           execute_at := now + 5 * (retry_count t + 1) * 60000000\<rparr>)
              else None)"
    using execute_task_failing [OF a(2) h(2)] a(1) by (simp add: tid)
  have "process_due_tasks now s =
          fold (execute_task now) (map snd ys) (execute_task now t ?a)"
    by (simp add: process_due_tasks_def Let_def split)
  then show ?thesis
    using b by (simp add: fold_execute_other [OF oy])
qed

lemma retry_rounds_absent: "map_of (tasks s) k = None \<Longrightarrow> retry_rounds n k s = s"
  by (cases n) simp_all

lemma retry_rounds_survive:
  assumes "keyed (tasks s)" and "map_of (tasks s) k = Some t"
    and "task_handlers s (task_type t) = Some h"
    and "\<forall>clock. \<exists>e. h clock (payload t) = Raises e"
    and "retry_count t + int n \<le> max_retries t"
  shows "\<exists>t'. map_of (tasks (retry_rounds n k s)) k = Some t'
              \<and> retry_count t' = retry_count t + int n"
  using assms
proof (induction n arbitrary: s t)
  case 0
  then show ?case by simp
next
  case (Suc n)
  let ?s1 = "process_due_tasks (execute_at t) s"
  let ?t1 = "t\<lparr>retry_count := retry_count t + 1,
               execute_at := execute_at t + 5 * (retry_count t + 1) * 60000000\<rparr>"
  obtain e where e: "h (execute_at t) (payload t) = Raises e"
    using Suc.prems(4) by blast
  have lt: "retry_count t < max_retries t" using Suc.prems(5) by simp
  have m1: "map_of (tasks ?s1) k = Some ?t1"
    using process_due_failing [OF Suc.prems(1,2) _ Suc.prems(3) e] lt
    by simp
  have "\<exists>t'. map_of (tasks (retry_rounds n k ?s1)) k = Some t'
              \<and> retry_count t' = retry_count ?t1 + int n"
  proof (rule Suc.IH [OF _ m1])
    show "keyed (tasks ?s1)" using Suc.prems(1) by (rule process_due_keyed)
    show "task_handlers ?s1 (task_type ?t1) = Some h"
      using Suc.prems(3) by (simp add: process_due_handlers)
    show "\<forall>clock. \<exists>e. h clock (payload ?t1) = Raises e"
      using Suc.prems(4) by simp
    show "retry_count ?t1 + int n \<le> max_retries ?t1"
      using Suc.prems(5) by simp
  qed
  then show ?case using Suc.prems(2) by (simp add: add.assoc)
qed

lemma retry_rounds_drop:
  assumes "keyed (tasks s)" and "map_of (tasks s) k = Some t"
    and "task_handlers s (task_type t) = Some h"
    and "\<forall>clock. \<exists>e. h clock (payload t) = Raises e"
    and "retry_count t \<le> max_retries t"
    and "retry_count t + int n = max_retries t + 1"
  shows "map_of (tasks (retry_rounds n k s)) k = None"
  using assms
proof (induction n arbitrary: s t)
  case 0
  then show ?case by simp
next
  case (Suc n)
  let ?s1 = "process_due_tasks (execute_at t) s"
  let ?t1 = "t\<lparr>retry_count := retry_count t + 1,
               execute_at := execute_at t + 5 * (retry_count t + 1) * 60000000\<rparr>"
  obtain e where e: "h (execute_at t) (payload t) = Raises e"
    using Suc.prems(4) by blast
  note tick = process_due_failing [OF Suc.prems(1,2) _ Suc.prems(3) e]
  show ?case
  proof (cases "retry_count t < max_retries t")
    case True
    have m1: "map_of (tasks ?s1) k = Some ?t1"
      using tick True by simp
    have "map_of (tasks (retry_rounds n k ?s1)) k = None"
    proof (rule Suc.IH [OF _ m1])
      show "keyed (tasks ?s1)" using Suc.prems(1) by (rule process_due_keyed)
      show "task_handlers ?s1 (task_type ?t1) = Some h"
        using Suc.prems(3) by (simp add: process_due_handlers)
      show "\<forall>clock. \<exists>e. h clock (payload ?t1) = Raises e"
        using Suc.prems(4) by simp
      show "retry_count ?t1 \<le> max_retries ?t1" using True by simp
      show "retry_count ?t1 + int n = max_retries ?t1 + 1"
        using Suc.prems(6) by simp
    qed
    then show ?thesis using Suc.prems(2) by simp
  next
    case False
    have m1: "map_of (tasks ?s1) k = None"
      using tick False by simp
    then show ?thesis
      using Suc.prems(2) by (simp add: retry_rounds_absent)
  qed
qed

lemma run_ticks_absent:
  "keyed (tasks s) \<Longrightarrow> map_of (tasks s) k = None \<Longrightarrow>
   map_of (tasks (run_ticks ticks s)) k = None"
  by (induction ticks arbitrary: s) (simp_all add: process_due_absent process_due_keyed)

text \<open>
  C8. A task in the queue whose handler raises when the task is executed: the tick that
  finds it due puts it back with \<open>retry_count\<close> incremented and
  \<open>execute_at = now + 5 * retry_count\<close> minutes (the incremented count) as long as
  \<open>retry_count < max_retries\<close>, and otherwise leaves it out of the queue. A fresh task
  (\<open>retry_count = 0\<close>) whose handler raises at every attempt is therefore rescheduled
  \<open>max_retries\<close> times, with \<open>retry_count\<close> = 1, 2, ..., \<open>max_retries\<close>, and the failure
  after that removes it; a task that is out of the queue never comes back, whatever ticks
  follow.
\<close>

theorem failing_task_retries:
  fixes s :: "'p NotificationScheduler"
  assumes "keyed (tasks s)" and "map_of (tasks s) k = Some t"
    and "task_handlers s (task_type t) = Some h"
  shows "(execute_at t \<le> now \<and> (\<exists>e. h now (payload t) = Raises e) \<longrightarrow>
            map_of (tasks (process_due_tasks now s)) k =
              (if retry_count t < max_retries t
               then Some (t\<lparr>retry_count := retry_count t + 1,
                            execute_at := now + 5 * (retry_count t + 1) * 60000000\<rparr>)
               else None))
         \<and> ((\<forall>clock. \<exists>e. h clock (payload t) = Raises e) \<and> retry_count t = 0 \<longrightarrow>
              (\<forall>n. int n \<le> max_retries t \<longrightarrow>
                 (\<exists>t'. map_of (tasks (retry_rounds n k s)) k = Some t'
                       \<and> retry_count t' = int n))
              \<and> (0 \<le> max_retries t \<longrightarrow>
                   map_of (tasks (retry_rounds (Suc (nat (max_retries t))) k s)) k = None))
         \<and> (\<forall>ticks (s' :: 'p NotificationScheduler).
               keyed (tasks s') \<and> map_of (tasks s') k = None \<longrightarrow>
               map_of (tasks (run_ticks ticks s')) k = None)"
proof (intro conjI impI allI)
  assume "execute_at t \<le> now \<and> (\<exists>e. h now (payload t) = Raises e)"
  then obtain e where "execute_at t \<le> now" "h now (payload t) = Raises e" by blast
  then show "map_of (tasks (process_due_tasks now s)) k =
              (if retry_count t < max_retries t
               then Some (t\<lparr>retry_count := retry_count t + 1,
                            execute_at := now + 5 * (retry_count t + 1) * 60000000\<rparr>)
               else None)"
    using process_due_failing [OF assms(1,2) _ assms(3)] by blast
next
  fix n
  assume a: "(\<forall>clock. \<exists>e. h clock (payload t) = Raises e) \<and> retry_count t = 0"
    and n: "int n \<le> max_retries t"
  show "\<exists>t'. map_of (tasks (retry_rounds n k s)) k = Some t' \<and> retry_count t' = int n"
    using retry_rounds_survive [OF assms, of n] a n by simp
next
  assume a: "(\<forall>clock. \<exists>e. h clock (payload t) = Raises e) \<and> retry_count t = 0"
    and m: "0 \<le> max_retries t"
  show "map_of (tasks (retry_rounds (Suc (nat (max_retries t))) k s)) k = None"
    using retry_rounds_drop [OF assms, of "Suc (nat (max_retries t))"] a m by simp
next
  fix ticks and s' :: "'p NotificationScheduler"
  assume "keyed (tasks s') \<and> map_of (tasks s') k = None"
  then show "map_of (tasks (run_ticks ticks s')) k = None"
    by (simp add: run_ticks_absent)
qed

theorem failing_task_retries_witness:
  "keyed (tasks sample_scheduler)
   \<and> map_of (tasks sample_scheduler) ''due_task'' = Some sample_task
   \<and> map_of (tasks (process_due_tasks 1000000 sample_scheduler)) ''due_task'' =
       Some (sample_task\<lparr>retry_count := 1, execute_at := 1000000 + 5 * 60000000\<rparr>)
   \<and> map_option retry_count (map_of (tasks (retry_rounds 3 ''due_task'' sample_scheduler))
                                ''due_task'') = Some 3
   \<and> map_of (tasks (retry_rounds 4 ''due_task'' sample_scheduler)) ''due_task'' = None"
proof -
  have q: "keyed (tasks sample_scheduler)"
    by (simp add: sample_scheduler_def keyed_def sample_task_def)
  have m: "map_of (tasks sample_scheduler) ''due_task'' = Some sample_task"
    by (simp add: sample_scheduler_def)
  have h: "task_handlers sample_scheduler (task_type sample_task) =
             Some (\<lambda>clock pl. Raises ''unreachable'')"
    by (simp add: sample_scheduler_def sample_task_def)
  note t = failing_task_retries [OF q m h, of 1000000]
  have r: "retry_count sample_task = 0" "max_retries sample_task = 3"
    "execute_at sample_task = 0"
    by (simp_all add: sample_task_def)
  from t have 1: "map_of (tasks (process_due_tasks 1000000 sample_scheduler)) ''due_task'' =
       Some (sample_task\<lparr>retry_count := 1, execute_at := 1000000 + 5 * 60000000\<rparr>)"
    by (simp add: r)
  from t have "\<exists>t'. map_of (tasks (retry_rounds 3 ''due_task'' sample_scheduler)) ''due_task''
                      = Some t' \<and> retry_count t' = int 3"
    using r by (metis (no_types, lifting) of_nat_numeral order_refl)
  then have 2: "map_option retry_count
                  (map_of (tasks (retry_rounds 3 ''due_task'' sample_scheduler)) ''due_task'')
                = Some 3"
    by auto
  from t have 3: "map_of (tasks (retry_rounds (Suc (nat 3)) ''due_task'' sample_scheduler))
                    ''due_task'' = None"
    by (simp add: r)
  have "Suc (nat 3) = 4" by simp
  with 3 have 4: "map_of (tasks (retry_rounds 4 ''due_task'' sample_scheduler)) ''due_task'' = None"
    by simp
  show ?thesis using q m 1 2 4 by simp
qed

section \<open>Sending a notification\<close>

lemma class_namespace_send_notification:
  "class_namespace ''send_notification'' = Some Def_send_notification_719"
  by (simp add: class_namespace_def class_body_def)

lemmas notification_defs =
  send_notification_tracked_def send_telegram_message_def store_notification_def
  unexpected_keyword_def send_notification_params_def next_notification_id_def kw_int_def
  kw_str_def kw_json_def kw_time_def Let_def

text \<open>
  What the method defined first would do, on an empty notification table: with a
  \<^verbatim>\<open>schedule_for\<close> the row is stored as scheduled and nothing is sent (the result does not
  depend on the transport); without it the row is stored and marked sent with \<^verbatim>\<open>sent_at\<close>,
  or failed with the error text and one retry counted.
\<close>

lemma tracked_send_scheduled:
  "send_notification_tracked tg 0 []
     [(''telegram_id'', VInt 123456789), (''message'', VStr ''Rate this order''),
      (''notification_type'', VType FEEDBACK_REQUEST),
      (''schedule_for'', VTime (timedelta_hours 1))] =
     ([scheduled_notification], Inr (ReturnsNotification (Some scheduled_notification)))"
  by (simp add: notification_defs scheduled_notification_def)

lemma tracked_send_immediate:
  "send_notification_tracked (\<lambda>chat text markup. Returned) 5 []
     [(''telegram_id'', VInt 123456789), (''message'', VStr ''Test message''),
      (''notification_type'', VType ORDER_CREATED)] =
     ([pending_notification\<lparr>notification_status := NS_SENT, sent_at := Some 5\<rparr>],
      Inr (ReturnsNotification
             (Some (pending_notification\<lparr>notification_status := NS_SENT, sent_at := Some 5\<rparr>))))"
  "send_notification_tracked (\<lambda>chat text markup. Raises ''Telegram API error'') 5 []
     [(''telegram_id'', VInt 123456789), (''message'', VStr ''Test message''),
      (''notification_type'', VType ORDER_CREATED)] =
     ([pending_notification\<lparr>notification_status := NS_FAILED,
                            error_message := Some ''Telegram API error'',
                            notification_retry_count := 1\<rparr>],
      Inr (ReturnsNotification
             (Some (pending_notification\<lparr>notification_status := NS_FAILED,
                                          error_message := Some ''Telegram API error'',
                                          notification_retry_count := 1\<rparr>))))"
  by (simp_all add: notification_defs pending_notification_def)

text \<open>
  C9. The call \<^verbatim>\<open>send_notification(telegram_id=..., message=..., notification_type=...,
  schedule_for=...)\<close> on the service does not reach the method that stores and sends: the
  name is bound to the two-parameter static method defined last in the class body, the
  keyword \<^verbatim>\<open>notification_type\<close> is rejected, and the notification table is unchanged, with
  or without a schedule time.
\<close>

theorem send_notification_call_rejected:
  "send_notification (\<lambda>chat text markup. Returned) 0 []
     [(''telegram_id'', VInt 123456789), (''message'', VStr ''Rate this order''),
      (''notification_type'', VType FEEDBACK_REQUEST),
      (''schedule_for'', VTime (timedelta_hours 1))] =
     ([], Inl (UnexpectedKeyword ''notification_type''))
   \<and> send_notification (\<lambda>chat text markup. Returned) 5 []
       [(''telegram_id'', VInt 123456789), (''message'', VStr ''Test message''),
        (''notification_type'', VType ORDER_CREATED)] =
       ([], Inl (UnexpectedKeyword ''notification_type''))"
  by (simp add: send_notification_def class_namespace_send_notification
      send_notification_legacy_def unexpected_keyword_def)


end
